theory Spec2Isabelle
  imports Main "HOL-Library.Word"
begin

unbundle bit_operations_syntax

section \<open>The WebSocket session of websocket\_session.hpp\<close>

text \<open>
  A shallow embedding of \<^verbatim>\<open>websocketpp::session\<close>. The class becomes the record
  \<open>session\<close>, each member function a function from the session to the session it leaves.
  What a member function does to the outside world (a log line, a callback of the
  connection handler, an asynchronous write, the socket) is appended to the field
  \<open>m_trace\<close>, in the order the statements run. A C++ exception is the constructor
  \<open>Throw\<close> of \<open>outcome\<close>; it carries the session as the statements before the
  \<^verbatim>\<open>throw\<close> left it, because those assignments are not undone.
\<close>

subsection \<open>Enumerations\<close>

text \<open>\<^verbatim>\<open>namespace state\<close>, lines 118--125.\<close>

datatype state_value = CONNECTING | OPEN | CLOSING | CLOSED

text \<open>
  Modelled from the spec: \<^verbatim>\<open>frame::opcode::value\<close> is declared in websocket\_frame.hpp,
  which is not among the sources. The six opcodes the session names, and any other
  four-bit value (the \<^verbatim>\<open>default\<close> branch of \<^verbatim>\<open>process_frame\<close>).
\<close>

datatype opcode_value = CONTINUATION | TEXT | BINARY | CLOSE | PING | PONG | RSV_OPCODE nat

text \<open>
  Modelled from the spec: \<^verbatim>\<open>frame::error::value\<close> and \<^verbatim>\<open>frame::exception\<close> are declared
  in websocket\_frame.hpp. An exception built without a code (lines 912 and 993) is taken
  to be fatal: section 7 of the spec has no other kind for it, and
  \<^verbatim>\<open>handle_read_frame\<close> treats every code it does not name as fatal.
\<close>

datatype error_value =
  FATAL_SESSION_ERROR | SOFT_SESSION_ERROR | PROTOCOL_VIOLATION | PAYLOAD_VIOLATION
  | INTERNAL_SERVER_ERROR

text \<open>
  Modelled from the spec: the log levels and access-log categories are macros of
  websocketpp.hpp.
\<close>

datatype log_level = LOG_DEBUG | LOG_WARN | LOG_ERROR

datatype alog_level = ALOG_HANDSHAKE | ALOG_FRAME | ALOG_MISC_CONTROL | ALOG_DISCONNECT

text \<open>
  Modelled from the spec: \<^verbatim>\<open>close::status::value\<close> is an enumeration of websocketpp.hpp;
  the numbers are the close-code catalog of section 4.7. The predicates
  \<^verbatim>\<open>close::status::invalid\<close> and \<^verbatim>\<open>close::status::reserved\<close> live in the same header;
  they are fields of the record \<open>endpoint\<close> below, so every theorem holds for whatever
  they compute.
\<close>

type_synonym close_status = nat

definition NORMAL :: close_status where "NORMAL = 1000"
definition PROTOCOL_ERROR :: close_status where "PROTOCOL_ERROR = 1002"
definition NO_STATUS :: close_status where "NO_STATUS = 1005"
definition ABNORMAL_CLOSE :: close_status where "ABNORMAL_CLOSE = 1006"
definition INVALID_PAYLOAD :: close_status where "INVALID_PAYLOAD = 1007"
definition POLICY_VIOLATION :: close_status where "POLICY_VIOLATION = 1008"

lemmas close_status_defs =
  NORMAL_def PROTOCOL_ERROR_def NO_STATUS_def ABNORMAL_CLOSE_def INVALID_PAYLOAD_def
  POLICY_VIOLATION_def

subsection \<open>The UTF-8 validator\<close>

text \<open>
  Modelled from the spec: utf8\_validator.hpp and \<^verbatim>\<open>frame::parser::validate_utf8\<close> are not
  among the sources. Sections 3 and 4.3 of the spec: an incremental automaton with an
  initial state ACCEPT, a state REJECT entered on any malformed byte, over-long encoding,
  surrogate or code point above U+10FFFF, and a partial code point; every payload byte is
  fed to it, and the frame fails with PAYLOAD\_VIOLATION as soon as REJECT is entered.
  The other states say which continuation bytes may follow.
\<close>

datatype utf8_dfa =
  UTF8_ACCEPT | UTF8_REJECT | UTF8_TAIL1 | UTF8_TAIL2 | UTF8_TAIL3
  | UTF8_E0 | UTF8_ED | UTF8_F0 | UTF8_F4

definition in_range :: "nat \<Rightarrow> nat \<Rightarrow> nat \<Rightarrow> bool" where
  "in_range lo hi b = (lo \<le> b \<and> b \<le> hi)"

definition tail_to :: "utf8_dfa \<Rightarrow> nat \<Rightarrow> nat \<Rightarrow> nat \<Rightarrow> nat \<Rightarrow> utf8_dfa \<times> nat" where
  "tail_to nxt lo hi cp b =
     (if in_range lo hi b then (nxt, cp * 64 + b mod 64) else (UTF8_REJECT, cp * 64 + b mod 64))"

fun decode_byte :: "utf8_dfa \<Rightarrow> nat \<Rightarrow> nat \<Rightarrow> utf8_dfa \<times> nat" where
  "decode_byte UTF8_ACCEPT cp b =
     (if b \<le> 0x7F then (UTF8_ACCEPT, b)
      else if in_range 0xC2 0xDF b then (UTF8_TAIL1, b mod 32)
      else if b = 0xE0 then (UTF8_E0, b mod 16)
      else if b = 0xED then (UTF8_ED, b mod 16)
      else if in_range 0xE1 0xEF b then (UTF8_TAIL2, b mod 16)
      else if b = 0xF0 then (UTF8_F0, b mod 8)
      else if in_range 0xF1 0xF3 b then (UTF8_TAIL3, b mod 8)
      else if b = 0xF4 then (UTF8_F4, b mod 8)
      else (UTF8_REJECT, b))"
| "decode_byte UTF8_REJECT cp b = (UTF8_REJECT, cp)"
| "decode_byte UTF8_TAIL1 cp b = tail_to UTF8_ACCEPT 0x80 0xBF cp b"
| "decode_byte UTF8_TAIL2 cp b = tail_to UTF8_TAIL1 0x80 0xBF cp b"
| "decode_byte UTF8_TAIL3 cp b = tail_to UTF8_TAIL2 0x80 0xBF cp b"
| "decode_byte UTF8_E0 cp b = tail_to UTF8_TAIL1 0xA0 0xBF cp b"
| "decode_byte UTF8_ED cp b = tail_to UTF8_TAIL1 0x80 0x9F cp b"
| "decode_byte UTF8_F0 cp b = tail_to UTF8_TAIL2 0x90 0xBF cp b"
| "decode_byte UTF8_F4 cp b = tail_to UTF8_TAIL2 0x80 0x8F cp b"

definition decode :: "utf8_dfa \<times> nat \<Rightarrow> char \<Rightarrow> utf8_dfa \<times> nat" where
  "decode u c = decode_byte (fst u) (snd u) (of_char c)"

text \<open>
  \<^verbatim>\<open>validate_utf8(&state, &codepoint)\<close>: the bytes of one payload are fed in order; the
  two variables are written through the pointers at every byte, so they keep the
  rejecting state when the exception leaves. The boolean is False when it throws.
\<close>

fun validate_utf8 :: "string \<Rightarrow> utf8_dfa \<times> nat \<Rightarrow> (utf8_dfa \<times> nat) \<times> bool" where
  "validate_utf8 [] u = (u, True)"
| "validate_utf8 (c # cs) u =
     (if fst (decode u c) = UTF8_REJECT then (decode u c, False)
      else validate_utf8 cs (decode u c))"

subsection \<open>Frames\<close>

text \<open>
  Modelled from the spec: \<^verbatim>\<open>frame::parser\<close> (websocket\_frame.hpp) is not among the
  sources. A frame is what its accessors return: the fin bit, the opcode, the mask bit,
  the payload bytes, and for a CLOSE frame the status code and the reason; \<open>ready\<close> is
  True once the whole frame has been consumed. The fields carry the names of the
  accessors the session calls.
\<close>

record frame =
  ready :: bool
  get_fin :: bool
  get_opcode :: opcode_value
  get_masked :: bool
  get_payload :: string
  get_close_status :: close_status
  get_close_msg :: string

text \<open>\<^verbatim>\<open>reset()\<close>: the parser goes back to waiting for a frame header.\<close>

definition frame_reset :: frame where
  "frame_reset =
     \<lparr>ready = False, get_fin = False, get_opcode = CONTINUATION, get_masked = False,
      get_payload = [], get_close_status = NO_STATUS, get_close_msg = []\<rparr>"

definition set_status :: "close_status \<Rightarrow> string \<Rightarrow> frame \<Rightarrow> frame" where
  "set_status code reason f = f\<lparr>get_close_status := code, get_close_msg := reason\<rparr>"

subsection \<open>The session\<close>

text \<open>What the session does to the outside, in the order it does it.\<close>

datatype effect =
  Log string log_level
  | Access_Log string alog_level
  | Log_Open_Result
  | Log_Close_Result bool close_status string close_status string
  | On_Validate
  | On_Open
  | On_Message_Text string
  | On_Message_Binary string
  | On_Close
  | Validate_Host string
  | Async_Read_Handshake
  | Async_Write_Handshake string
  | Async_Write_Frame frame
  | Async_Read_Frame
  | Socket_Close

text \<open>
  What the stream buffer holds, seen through the frame parser: each entry is one run of
  \<^verbatim>\<open>consume\<close> up to a whole frame, or up to the exception \<^verbatim>\<open>consume\<close> throws on
  the bytes it meets.
\<close>

datatype rx = Rx_Frame frame | Rx_Throw string error_value

text \<open>
  The deadline timer holds at most one pending wait; the handler it was bound to is all
  that matters. \<^verbatim>\<open>cancel()\<close> and \<^verbatim>\<open>expires_from_now\<close> drop the pending wait.
\<close>

datatype timer_wait = Handshake_Wait | Close_Wait

text \<open>
  \<^verbatim>\<open>header_list\<close> is a \<^verbatim>\<open>std::map\<close> from strings to strings: its keys are unique and
  it is walked in the order of the keys, bytes compared as unsigned values. It is an
  association list kept in that order.
\<close>

type_synonym header_list = "(string \<times> string) list"

fun str_less :: "string \<Rightarrow> string \<Rightarrow> bool" where
  "str_less [] [] = False"
| "str_less [] (y # ys) = True"
| "str_less (x # xs) [] = False"
| "str_less (x # xs) (y # ys) =
     ((of_char x :: nat) < of_char y \<or> (x = y \<and> str_less xs ys))"

text \<open>\<^verbatim>\<open>list[key] = val\<close>.\<close>

fun map_assign :: "string \<Rightarrow> string \<Rightarrow> header_list \<Rightarrow> header_list" where
  "map_assign k v [] = [(k, v)]"
| "map_assign k v ((k', v') # rest) =
     (if k = k' then (k, v) # rest
      else if str_less k k' then (k, v) # (k', v') # rest
      else (k', v') # map_assign k v rest)"

text \<open>\<^verbatim>\<open>get_header\<close>, lines 1179--1188: the empty string for a key that is not there.\<close>

definition get_header :: "string \<Rightarrow> header_list \<Rightarrow> string" where
  "get_header key list = (case map_of list key of None \<Rightarrow> [] | Some v \<Rightarrow> v)"

text \<open>
  The members of the class, lines 1190--1247, without the socket, the stream buffer and the
  lists of subprotocols and extensions (nothing below reads them). \<open>m_buf\<close> holds the
  frames that were read and not yet consumed. \<open>is_server\<close> is the
  constant \<^verbatim>\<open>endpoint_type::is_server\<close>; \<open>m_local_interface\<close> says whether a connection
  handler is attached (the pointer is not null); \<open>m_socket_open\<close> is
  \<^verbatim>\<open>m_socket.is_open()\<close>; \<open>m_timer\<close> is the pending wait of the deadline timer.
\<close>

record session =
  is_server :: bool
  m_raw_client_handshake :: string
  m_client_http_request :: string
  m_resource :: string
  m_client_origin :: string
  m_client_headers :: header_list
  m_version :: "32 word"
  m_raw_server_handshake :: string
  m_server_headers :: header_list
  m_server_http_code :: nat
  m_server_http_string :: string
  m_state :: state_value
  m_writing :: bool
  m_local_close_code :: close_status
  m_local_close_msg :: string
  m_remote_close_code :: close_status
  m_remote_close_msg :: string
  m_was_clean :: bool
  m_closed_by_me :: bool
  m_dropped_by_me :: bool
  m_socket_open :: bool
  m_local_interface :: bool
  m_timer :: "timer_wait option"
  m_utf8_state :: utf8_dfa
  m_utf8_codepoint :: nat
  m_current_message :: string
  m_fragmented :: bool
  m_current_opcode :: opcode_value
  m_buf :: "rx list"
  m_read_frame :: frame
  m_write_frame :: frame
  m_error :: bool
  m_trace :: "effect list"

text \<open>
  What the session reads from its endpoint and from websocketpp.hpp, none of it among the
  sources: \<^verbatim>\<open>validate_host\<close>, the two predicates on close codes and the table of HTTP
  reason phrases. They are parameters.
\<close>

record endpoint =
  validate_host :: "string \<Rightarrow> bool"
  invalid :: "close_status \<Rightarrow> bool"
  reserved :: "close_status \<Rightarrow> bool"
  lookup_http_error_string :: "nat \<Rightarrow> string"

datatype outcome = Return session | Throw string error_value session

definition emit :: "effect \<Rightarrow> session \<Rightarrow> session" where
  "emit e s = s\<lparr>m_trace := m_trace s @ [e]\<rparr>"

text \<open>\<^verbatim>\<open>log\<close> and \<^verbatim>\<open>access_log\<close>, lines 1066--1071.\<close>

definition log :: "string \<Rightarrow> log_level \<Rightarrow> session \<Rightarrow> session" where
  "log msg level s = emit (Log msg level) s"

definition access_log :: "string \<Rightarrow> alog_level \<Rightarrow> session \<Rightarrow> session" where
  "access_log msg level s = emit (Access_Log msg level) s"

text \<open>
  \<^verbatim>\<open>write_frame\<close>, lines 766--799. A client masks its frames. The debug line is the
  prefix of the source's, which goes on with \<^verbatim>\<open>print_frame()\<close> of the frame header.
\<close>

definition write_frame :: "session \<Rightarrow> session" where
  "write_frame s =
     (let s1 = (if \<not> is_server s
                then s\<lparr>m_write_frame := (m_write_frame s)\<lparr>get_masked := True\<rparr>\<rparr> else s);
          s2 = log ''Write Frame: '' LOG_DEBUG s1;
          s3 = s2\<lparr>m_writing := True\<rparr>
      in emit (Async_Write_Frame (m_write_frame s3)) s3)"

definition set_frame :: "opcode_value \<Rightarrow> string \<Rightarrow> session \<Rightarrow> session" where
  "set_frame opc msg s =
     s\<lparr>m_write_frame := (m_write_frame s)\<lparr>get_fin := True, get_opcode := opc, get_payload := msg\<rparr>\<rparr>"

text \<open>
  \<^verbatim>\<open>send\<close> (the overload for text, lines 301--311), \<^verbatim>\<open>send\<close> for bytes (lines
  313--323, here \<open>send_bytes\<close>), \<^verbatim>\<open>ping\<close> and \<^verbatim>\<open>pong\<close> (lines 324--345).
\<close>

definition send :: "string \<Rightarrow> session \<Rightarrow> session" where
  "send msg s =
     (if m_state s \<noteq> OPEN
      then log ''Tried to send a message from a session that wasn't open'' LOG_WARN s
      else write_frame (set_frame TEXT msg s))"

definition send_bytes :: "string \<Rightarrow> session \<Rightarrow> session" where
  "send_bytes data s =
     (if m_state s \<noteq> OPEN
      then log ''Tried to send a message from a session that wasn't open'' LOG_WARN s
      else write_frame (set_frame BINARY data s))"

definition ping :: "string \<Rightarrow> session \<Rightarrow> session" where
  "ping msg s =
     (if m_state s \<noteq> OPEN
      then log ''Tried to send a ping from a session that wasn't open'' LOG_WARN s
      else write_frame (set_frame PING msg s))"

definition pong :: "string \<Rightarrow> session \<Rightarrow> session" where
  "pong msg s =
     (if m_state s \<noteq> OPEN
      then log ''Tried to send a pong from a session that wasn't open'' LOG_WARN s
      else write_frame (set_frame PONG msg s))"

text \<open>
  \<^verbatim>\<open>send_close\<close>, lines 1119--1158. The state, the close timer and the local close code
  are set before the frame is filled in.
\<close>

definition send_close :: "endpoint \<Rightarrow> close_status \<Rightarrow> string \<Rightarrow> session \<Rightarrow> session" where
  "send_close ep status reason s =
     (if m_state s \<noteq> OPEN
      then log ''Tried to disconnect a session that wasn't open'' LOG_WARN s
      else
        (let s1 = s\<lparr>m_state := CLOSING, m_timer := Some Close_Wait,
                     m_local_close_code := status, m_local_close_msg := reason\<rparr>;
             f = (m_write_frame s1)\<lparr>get_fin := True, get_opcode := CLOSE\<rparr>;
             f' = (if status = NO_STATUS then set_status NORMAL [] f
                   else if status = ABNORMAL_CLOSE then set_status POLICY_VIOLATION reason f
                   else if invalid ep status
                     then set_status PROTOCOL_ERROR ''Status code is invalid'' f
                   else if reserved ep status
                     then set_status PROTOCOL_ERROR ''Status code is reserved'' f
                   else set_status status reason f)
         in write_frame (s1\<lparr>m_write_frame := f'\<rparr>)))"

text \<open>\<^verbatim>\<open>validate_app_close_status\<close>, lines 1108--1118.\<close>

definition validate_app_close_status :: "close_status \<Rightarrow> bool" where
  "validate_app_close_status status =
     (if status = NORMAL then True
      else if status \<ge> 4000 \<and> status < 5000 then True
      else False)"

text \<open>
  \<^verbatim>\<open>close\<close>, lines 348--351. The result of \<^verbatim>\<open>validate_app_close_status\<close> is dropped by
  the source, so it decides nothing.
\<close>

definition close :: "endpoint \<Rightarrow> close_status \<Rightarrow> string \<Rightarrow> session \<Rightarrow> session" where
  "close ep status reason s =
     (let unused = validate_app_close_status status in send_close ep status reason s)"

text \<open>\<^verbatim>\<open>drop_tcp\<close>, lines 1160--1177.\<close>

definition drop_tcp :: "bool \<Rightarrow> session \<Rightarrow> session" where
  "drop_tcp dropped_by_me s =
     (let s1 = s\<lparr>m_timer := None\<rparr>;
          s2 = (if m_socket_open s1 then emit Socket_Close (s1\<lparr>m_socket_open := False\<rparr>) else s1)
      in s2\<lparr>m_dropped_by_me := dropped_by_me, m_state := CLOSED\<rparr>)"

subsection \<open>The message assembler\<close>

text \<open>\<^verbatim>\<open>reset_message\<close>, lines 1055--1062.\<close>

definition reset_message :: "session \<Rightarrow> session" where
  "reset_message s =
     s\<lparr>m_error := False, m_fragmented := False, m_current_message := [],
       m_utf8_state := UTF8_ACCEPT, m_utf8_codepoint := 0\<rparr>"

text \<open>\<^verbatim>\<open>extract_payload\<close>, lines 1048--1052.\<close>

definition extract_payload :: "session \<Rightarrow> session" where
  "extract_payload s =
     s\<lparr>m_current_message := m_current_message s @ get_payload (m_read_frame s)\<rparr>"

text \<open>
  \<^verbatim>\<open>deliver_message\<close>, lines 1001--1043. Without a connection handler it returns at once,
  before the check of the validator.
\<close>

definition deliver_message :: "session \<Rightarrow> outcome" where
  "deliver_message s =
     (if \<not> m_local_interface s then Return s
      else if m_current_opcode s = BINARY then
        (if m_fragmented s then Return (emit (On_Message_Binary (m_current_message s)) s)
         else Return (emit (On_Message_Binary (get_payload (m_read_frame s))) s))
      else if m_current_opcode s = TEXT then
        (if m_utf8_state s \<noteq> UTF8_ACCEPT then Throw ''Invalid UTF-8 Data'' PAYLOAD_VIOLATION s
         else if m_fragmented s then Return (emit (On_Message_Text (m_current_message s)) s)
         else Return (emit (On_Message_Text (get_payload (m_read_frame s))) s))
      else Throw ''Attempted to deliver a message of unsupported opcode '' SOFT_SESSION_ERROR s)"

text \<open>What runs after a call that may throw.\<close>

definition and_then :: "outcome \<Rightarrow> (session \<Rightarrow> outcome) \<Rightarrow> outcome" where
  "and_then r k = (case r of Return s \<Rightarrow> k s | Throw what code s \<Rightarrow> Throw what code s)"

text \<open>
  The session's part of \<^verbatim>\<open>validate_utf8\<close>: both variables are handed over by pointer
  (lines 934 and 961).
\<close>

definition session_validate_utf8 :: "session \<Rightarrow> outcome" where
  "session_validate_utf8 s =
     (let r = validate_utf8 (get_payload (m_read_frame s)) (m_utf8_state s, m_utf8_codepoint s);
          s1 = s\<lparr>m_utf8_state := fst (fst r), m_utf8_codepoint := snd (fst r)\<rparr>
      in if snd r then Return s1 else Throw ''Invalid UTF-8 Data'' PAYLOAD_VIOLATION s1)"

text \<open>\<^verbatim>\<open>process_binary\<close>, lines 939--953.\<close>

definition process_binary :: "session \<Rightarrow> outcome" where
  "process_binary s =
     (if m_fragmented s
      then Throw ''Got a new message before the previous was finished.'' PROTOCOL_VIOLATION s
      else
        (let s1 = s\<lparr>m_current_opcode := get_opcode (m_read_frame s)\<rparr>
         in if get_fin (m_read_frame s1)
            then and_then (deliver_message s1) (\<lambda>s2. Return (reset_message s2))
            else Return (extract_payload (s1\<lparr>m_fragmented := True\<rparr>))))"

text \<open>\<^verbatim>\<open>process_text\<close>, lines 932--938: the validation comes first.\<close>

definition process_text :: "session \<Rightarrow> outcome" where
  "process_text s = and_then (session_validate_utf8 s) process_binary"

text \<open>\<^verbatim>\<open>process_continuation\<close>, lines 954--971.\<close>

definition process_continuation :: "session \<Rightarrow> outcome" where
  "process_continuation s =
     (if \<not> m_fragmented s
      then Throw ''Got a continuation frame without an outstanding message.'' PROTOCOL_VIOLATION s
      else
        and_then (if m_current_opcode s = TEXT then session_validate_utf8 s else Return s)
          (\<lambda>s1. let s2 = extract_payload s1
                in if get_fin (m_read_frame s2)
                   then and_then (deliver_message s2) (\<lambda>s3. Return (reset_message s3))
                   else Return s2))"

text \<open>\<^verbatim>\<open>process_ping\<close> and \<^verbatim>\<open>process_pong\<close>, lines 917--931.\<close>

definition process_ping :: "session \<Rightarrow> outcome" where
  "process_ping s =
     Return (write_frame (set_frame PONG (get_payload (m_read_frame s))
               (access_log ''Ping'' ALOG_MISC_CONTROL s)))"

definition process_pong :: "session \<Rightarrow> outcome" where
  "process_pong s = Return (access_log ''Pong'' ALOG_MISC_CONTROL s)"

text \<open>\<^verbatim>\<open>process_close\<close>, lines 972--998.\<close>

definition process_close :: "endpoint \<Rightarrow> session \<Rightarrow> outcome" where
  "process_close ep s =
     (let s1 = s\<lparr>m_remote_close_code := get_close_status (m_read_frame s),
                  m_remote_close_msg := get_close_msg (m_read_frame s)\<rparr>
      in if m_state s1 = OPEN then
           (let s2 = log ''process_close sending ack'' LOG_DEBUG s1;
                s3 = s2\<lparr>m_closed_by_me := False\<rparr>;
                s4 = send_close ep (m_remote_close_code s3) (m_remote_close_msg s3) s3
            in Return (s4\<lparr>m_was_clean := True, m_state := CLOSED\<rparr>))
         else if m_state s1 = CLOSING then
           (let s2 = log ''process_close got ack'' LOG_DEBUG s1;
                s3 = s2\<lparr>m_closed_by_me := True\<rparr>
            in Return (s3\<lparr>m_was_clean := True, m_state := CLOSED\<rparr>))
         else Throw ''process_closed called from wrong state'' FATAL_SESSION_ERROR s1)"

text \<open>\<^verbatim>\<open>process_frame\<close>, lines 874--916. The read frame is reset only when nothing threw.\<close>

definition process_frame :: "endpoint \<Rightarrow> session \<Rightarrow> outcome" where
  "process_frame ep s0 =
     (let s = log ''process_frame'' LOG_DEBUG s0
      in and_then
           (if m_state s = OPEN then
              (case get_opcode (m_read_frame s) of
                 CONTINUATION \<Rightarrow> process_continuation s
               | TEXT \<Rightarrow> process_text s
               | BINARY \<Rightarrow> process_binary s
               | CLOSE \<Rightarrow> process_close ep (log ''process_close'' LOG_DEBUG s)
               | PING \<Rightarrow> process_ping s
               | PONG \<Rightarrow> process_pong s
               | RSV_OPCODE n \<Rightarrow> Throw ''Invalid Opcode'' PROTOCOL_VIOLATION s)
            else if m_state s = CLOSING then
              (if get_opcode (m_read_frame s) = CLOSE then process_close ep s
               else Return (log ''ignoring this frame'' LOG_DEBUG s))
            else Throw ''process_frame called from invalid state'' FATAL_SESSION_ERROR s)
           (\<lambda>s'. Return (s'\<lparr>m_read_frame := frame_reset\<rparr>)))"

subsection \<open>Reading frames\<close>

text \<open>The \<^verbatim>\<open>boost::system::error_code\<close> a completion handler is called with.\<close>

datatype error_code = Success | Eof | Operation_Aborted | Other_Error

text \<open>
  One turn of the loop of \<^verbatim>\<open>handle_read_frame\<close>, lines 663--690: the body of the
  \<^verbatim>\<open>try\<close>. \<^verbatim>\<open>get_bytes_needed() == 0\<close> holds of a frame that is ready. The debug line
  is the prefix of the source's, which adds the buffer's size in bytes.
\<close>

definition consume_and_process :: "endpoint \<Rightarrow> rx \<Rightarrow> session \<Rightarrow> outcome" where
  "consume_and_process ep x s =
     (if ready (m_read_frame s)
      then Throw ''have bytes that no frame needs'' FATAL_SESSION_ERROR s
      else
        (case x of
           Rx_Throw what code \<Rightarrow> Throw what code (s\<lparr>m_buf := tl (m_buf s)\<rparr>)
         | Rx_Frame f \<Rightarrow>
             (let s1 = s\<lparr>m_buf := tl (m_buf s), m_read_frame := f\<lparr>ready := True\<rparr>\<rparr>;
                  s2 = log ''processing frame '' LOG_DEBUG s1;
                  s3 = s2\<lparr>m_timer := None\<rparr>
              in process_frame ep s3)))"

text \<open>
  The \<^verbatim>\<open>catch\<close> of the loop, lines 691--723. The boolean says whether the loop goes on
  (\<^verbatim>\<open>continue\<close>) or ends (\<^verbatim>\<open>break\<close>).
\<close>

definition catch_frame_exception :: "endpoint \<Rightarrow> string \<Rightarrow> error_value \<Rightarrow> session \<Rightarrow> bool \<times> session" where
  "catch_frame_exception ep what code s =
     (let s1 = access_log what ALOG_FRAME s;
          s2 = log (''Caught frame exception: '' @ what) LOG_ERROR s1;
          s3 = (if ready (m_read_frame s2) then s2\<lparr>m_read_frame := frame_reset\<rparr> else s2)
      in if code = PROTOCOL_VIOLATION then (False, send_close ep PROTOCOL_ERROR what s3)
         else if code = PAYLOAD_VIOLATION then (False, send_close ep INVALID_PAYLOAD what s3)
         else if code = INTERNAL_SERVER_ERROR then (False, send_close ep ABNORMAL_CLOSE what s3)
         else if code = SOFT_SESSION_ERROR then (True, s3)
         else (False, drop_tcp True (log ''Dropping TCP due to unrecoverable exception'' LOG_DEBUG s3)))"

text \<open>
  The loop, lines 662--724: while the buffer is not empty and the state is not CLOSED.
  The first argument is the buffer, which is also the field \<open>m_buf\<close>; every turn but the
  one that throws before consuming takes its head.
\<close>

fun read_loop :: "endpoint \<Rightarrow> rx list \<Rightarrow> session \<Rightarrow> session" where
  "read_loop ep [] s = s"
| "read_loop ep (x # xs) s =
     (if m_state s = CLOSED then s
      else
        (case consume_and_process ep x s of
           Return s' \<Rightarrow> read_loop ep xs s'
         | Throw what code s' \<Rightarrow>
             (case catch_frame_exception ep what code s' of
                (True, s'') \<Rightarrow> read_loop ep xs s''
              | (False, s'') \<Rightarrow> s'')))"

text \<open>\<^verbatim>\<open>log_close_result\<close>, lines 1073--1084: what the line reports, without the pointer.\<close>

definition log_close_result :: "session \<Rightarrow> session" where
  "log_close_result s =
     emit (Log_Close_Result (m_was_clean s) (m_local_close_code s) (m_local_close_msg s)
            (m_remote_close_code s) (m_remote_close_msg s)) s"

text \<open>\<^verbatim>\<open>log_error\<close>, lines 1097--1103, without the pointer and the error's number.\<close>

definition log_error :: "string \<Rightarrow> session \<Rightarrow> session" where
  "log_error msg s = log msg LOG_ERROR s"

text \<open>
  \<^verbatim>\<open>handle_read_frame\<close>, lines 635--763. The debug line before the asynchronous read is
  the prefix of the source's.
\<close>

definition handle_read_frame :: "endpoint \<Rightarrow> error_code \<Rightarrow> session \<Rightarrow> session" where
  "handle_read_frame ep error s =
     (if m_state s \<noteq> OPEN \<and> m_state s \<noteq> CLOSING
      then log ''handle_read_frame called in invalid state'' LOG_ERROR s
      else if error = Operation_Aborted then s
      else
        (let s1 = (if error = Eof then log_error ''Recieved EOF'' s
                   else if error = Other_Error
                     then (log_error ''Error reading frame'' s)\<lparr>m_state := CLOSED\<rparr>
                   else s);
             s2 = read_loop ep (m_buf s1) s1;
             s3 = (if error = Eof then s2\<lparr>m_state := CLOSED\<rparr> else s2)
         in if (m_state s3 = OPEN \<or> m_state s3 = CLOSING) \<and> \<not> ready (m_read_frame s3)
            then emit Async_Read_Frame (log ''starting async read for '' LOG_DEBUG s3)
            else if m_state s3 = CLOSED then
              (let s4 = log_close_result s3;
                   s5 = (if m_local_interface s4 then emit On_Close s4 else s4)
               in s5\<lparr>m_timer := None\<rparr>)
            else log ''handle_read_frame called in invalid state'' LOG_ERROR s3))"

text \<open>\<^verbatim>\<open>read_frame\<close>, lines 627--631.\<close>

definition read_frame :: "endpoint \<Rightarrow> session \<Rightarrow> session" where
  "read_frame ep s = handle_read_frame ep Success s"

text \<open>\<^verbatim>\<open>handle_write_frame\<close>, lines 800--808.\<close>

definition handle_write_frame :: "bool \<Rightarrow> session \<Rightarrow> session" where
  "handle_write_frame error s =
     (let s1 = (if error then drop_tcp False (log_error ''Error writing frame data'' s) else s);
          s2 = access_log ''handle_write_frame complete'' ALOG_FRAME s1
      in s2\<lparr>m_writing := False\<rparr>)"

text \<open>
  \<^verbatim>\<open>handle_handshake_expired\<close> and \<^verbatim>\<open>handle_close_expired\<close>, lines 823--851. The timer's
  handler has run, so no wait is pending any more.
\<close>

definition handle_handshake_expired :: "error_code \<Rightarrow> session \<Rightarrow> session" where
  "handle_handshake_expired error s =
     (if error \<noteq> Success then
        (if error \<noteq> Operation_Aborted
         then drop_tcp True (log ''Unexpected handshake timer error.'' LOG_DEBUG s)
         else s)
      else drop_tcp True (log ''Handshake timed out'' LOG_DEBUG s))"

definition handle_close_expired :: "error_code \<Rightarrow> session \<Rightarrow> session" where
  "handle_close_expired error s =
     (if error \<noteq> Success then
        (if error = Operation_Aborted then log ''timer was aborted'' LOG_DEBUG s
         else drop_tcp False (log ''Unexpected close timer error.'' LOG_DEBUG s))
      else if m_state s \<noteq> CLOSED then drop_tcp False (log ''close timed out'' LOG_DEBUG s)
      else s)"

subsection \<open>Construction\<close>

text \<open>
  The constructor, lines 161--184. The members it does not name keep what the memory held
  (\<open>m_version\<close>, \<open>m_server_http_code\<close>, \<open>m_fragmented\<close>, \<open>m_current_opcode\<close>,
  \<open>m_error\<close>): they are read from \<open>mem\<close>. Strings, maps and vectors start empty.
\<close>

definition session_ctor :: "bool \<Rightarrow> bool \<Rightarrow> session \<Rightarrow> session" where
  "session_ctor server defc mem =
     mem\<lparr>is_server := server,
         m_raw_client_handshake := [], m_client_http_request := [], m_resource := [],
         m_client_origin := [], m_client_headers := [],
         m_raw_server_handshake := [], m_server_headers := [], m_server_http_string := [],
         m_state := CONNECTING, m_writing := False,
         m_local_close_code := NO_STATUS, m_local_close_msg := [],
         m_remote_close_code := NO_STATUS, m_remote_close_msg := [],
         m_was_clean := False, m_closed_by_me := False, m_dropped_by_me := False,
         m_socket_open := False, m_local_interface := defc, m_timer := None,
         m_utf8_state := UTF8_ACCEPT, m_utf8_codepoint := 0, m_current_message := [],
         m_buf := [], m_read_frame := frame_reset, m_write_frame := frame_reset,
         m_trace := []\<rparr>"

text \<open>Memory of zeros, an accepting endpoint and sessions for the closed instances below.\<close>

definition zero_memory :: session where
  "zero_memory =
     \<lparr>is_server = False,
      m_raw_client_handshake = [], m_client_http_request = [], m_resource = [],
      m_client_origin = [], m_client_headers = [], m_version = 0,
      m_raw_server_handshake = [], m_server_headers = [], m_server_http_code = 0,
      m_server_http_string = [],
      m_state = CONNECTING, m_writing = False,
      m_local_close_code = 0, m_local_close_msg = [],
      m_remote_close_code = 0, m_remote_close_msg = [],
      m_was_clean = False, m_closed_by_me = False, m_dropped_by_me = False,
      m_socket_open = False, m_local_interface = False, m_timer = None,
      m_utf8_state = UTF8_ACCEPT, m_utf8_codepoint = 0, m_current_message = [],
      m_fragmented = False, m_current_opcode = CONTINUATION,
      m_buf = [], m_read_frame = frame_reset, m_write_frame = frame_reset,
      m_error = False, m_trace = []\<rparr>"

definition example_endpoint :: endpoint where
  "example_endpoint =
     \<lparr>validate_host = (\<lambda>h. h = ''example.com''),
      invalid = (\<lambda>c. c < 1000 \<or> 5000 \<le> c \<or> c = 1005 \<or> c = 1006),
      reserved = (\<lambda>c. c = 1004 \<or> (1011 \<le> c \<and> c < 3000)),
      lookup_http_error_string = (\<lambda>c. if c = 400 then ''Bad Request'' else ''Unknown'')\<rparr>"

text \<open>
  A server session with a connection handler whose handshake has been answered with 101
  and whose socket is open, then in each of the later states.
\<close>

definition open_session :: session where
  "open_session =
     reset_message ((session_ctor True True zero_memory)
       \<lparr>m_socket_open := True, m_server_http_code := 101, m_state := OPEN\<rparr>)"

definition closing_session :: session where
  "closing_session = open_session\<lparr>m_state := CLOSING, m_timer := Some Close_Wait\<rparr>"

definition data_frame :: "opcode_value \<Rightarrow> bool \<Rightarrow> string \<Rightarrow> frame" where
  "data_frame opc fin bytes =
     frame_reset\<lparr>get_fin := fin, get_opcode := opc, get_masked := True, get_payload := bytes\<rparr>"

text \<open>The code an outcome throws, if it throws.\<close>

definition thrown :: "outcome \<Rightarrow> error_value option" where
  "thrown r = (case r of Return s \<Rightarrow> None | Throw what code s \<Rightarrow> Some code)"

definition session_of :: "outcome \<Rightarrow> session" where
  "session_of r = (case r of Return s \<Rightarrow> s | Throw what code s \<Rightarrow> s)"

text \<open>The frames handed to the socket and the messages handed to the handler, in order.\<close>

fun frames_written :: "effect list \<Rightarrow> frame list" where
  "frames_written [] = []"
| "frames_written (Async_Write_Frame f # es) = f # frames_written es"
| "frames_written (e # es) = frames_written es"

fun messages_delivered :: "effect list \<Rightarrow> effect list" where
  "messages_delivered [] = []"
| "messages_delivered (On_Message_Text m # es) = On_Message_Text m # messages_delivered es"
| "messages_delivered (On_Message_Binary m # es) = On_Message_Binary m # messages_delivered es"
| "messages_delivered (e # es) = messages_delivered es"

text \<open>An OPEN session that has taken the first frame, not final, of a binary message.\<close>

definition fragmented_session :: session where
  "fragmented_session =
     session_of (consume_and_process example_endpoint
       (Rx_Frame (data_frame BINARY False ''a'')) open_session)"

text \<open>
  What may arrive between the first frame of a fragmented message and its last one: a
  CONTINUATION frame that is not final, or a control frame (PING, PONG, CLOSE).
  \<open>piece_rx\<close> is the frame as the parser hands it over, \<open>payloads\<close> the bytes of the
  CONTINUATION frames in the order of arrival, \<open>has_close\<close> whether a CLOSE frame is
  among them.
\<close>

datatype piece = Continuation string | Ping string | Pong string | Close close_status string

fun piece_rx :: "piece \<Rightarrow> rx" where
  "piece_rx (Continuation p) = Rx_Frame (data_frame CONTINUATION False p)"
| "piece_rx (Ping p) = Rx_Frame (data_frame PING True p)"
| "piece_rx (Pong p) = Rx_Frame (data_frame PONG True p)"
| "piece_rx (Close c m) =
     Rx_Frame ((data_frame CLOSE True [])\<lparr>get_close_status := c, get_close_msg := m\<rparr>)"

fun payloads :: "piece list \<Rightarrow> string" where
  "payloads [] = []"
| "payloads (Continuation p # ps) = p @ payloads ps"
| "payloads (x # ps) = payloads ps"

fun has_close :: "piece list \<Rightarrow> bool" where
  "has_close [] = False"
| "has_close (Close c m # ps) = True"
| "has_close (x # ps) = has_close ps"

text \<open>
  The frames of a fragmented message in wire order: the first frame with the opcode of
  the message and fin = 0, the pieces, and the CONTINUATION frame with fin = 1.
\<close>

definition message_frames :: "opcode_value \<Rightarrow> string \<Rightarrow> piece list \<Rightarrow> string \<Rightarrow> rx list" where
  "message_frames opc p0 pieces pn =
     Rx_Frame (data_frame opc False p0) # map piece_rx pieces @
     [Rx_Frame (data_frame CONTINUATION True pn)]"

text \<open>
  The callback \<^verbatim>\<open>on_message\<close> that \<^verbatim>\<open>deliver_message\<close> makes for a message of the opcode.
\<close>

definition on_message :: "opcode_value \<Rightarrow> string \<Rightarrow> effect" where
  "on_message opc bytes = (if opc = BINARY then On_Message_Binary bytes else On_Message_Text bytes)"

text \<open>
  The validator, started in the state \<open>u\<close>, takes every byte without rejecting and ends
  in ACCEPT.
\<close>

definition utf8_passes :: "utf8_dfa \<times> nat \<Rightarrow> string \<Rightarrow> bool" where
  "utf8_passes u bytes =
     (snd (validate_utf8 bytes u) \<and> fst (fst (validate_utf8 bytes u)) = UTF8_ACCEPT)"

text \<open>
  The session while a message of the opcode is being assembled, with the bytes collected
  so far and the validator's state.
\<close>

definition assembling :: "opcode_value \<Rightarrow> string \<Rightarrow> utf8_dfa \<times> nat \<Rightarrow> session \<Rightarrow> bool" where
  "assembling opc msg u s =
     (m_state s = OPEN \<and> m_fragmented s \<and> m_current_opcode s = opc \<and> m_current_message s = msg
      \<and> m_utf8_state s = fst u \<and> m_utf8_codepoint s = snd u
      \<and> \<not> ready (m_read_frame s) \<and> m_local_interface s)"

text \<open>
  The session after one more message was handed to the handler and the assembler was reset,
  and the session after it closed for a payload violation instead.
\<close>

definition delivered :: "effect list \<Rightarrow> effect \<Rightarrow> session \<Rightarrow> bool" where
  "delivered before m r =
     (messages_delivered (m_trace r) = before @ [m] \<and> m_state r = OPEN \<and> \<not> m_fragmented r
      \<and> m_current_message r = [] \<and> m_utf8_state r = UTF8_ACCEPT \<and> m_utf8_codepoint r = 0
      \<and> \<not> ready (m_read_frame r) \<and> m_local_interface r)"

definition closed_for_payload :: "endpoint \<Rightarrow> effect list \<Rightarrow> session \<Rightarrow> bool" where
  "closed_for_payload ep before r =
     (messages_delivered (m_trace r) = before \<and> m_state r = CLOSING
      \<and> m_local_close_code r = INVALID_PAYLOAD
      \<and> get_opcode (m_write_frame r) = CLOSE
      \<and> get_close_status (m_write_frame r) =
          (if invalid ep INVALID_PAYLOAD \<or> reserved ep INVALID_PAYLOAD
           then PROTOCOL_ERROR else INVALID_PAYLOAD)
      \<and> frames_written (m_trace r) \<noteq> []
      \<and> last (frames_written (m_trace r)) = m_write_frame r)"

text \<open>
  The assembler between two messages, as \<^verbatim>\<open>reset_message\<close> leaves it.
\<close>

definition message_start :: "session \<Rightarrow> bool" where
  "message_start s =
     (m_state s = OPEN \<and> \<not> m_fragmented s \<and> m_current_message s = []
      \<and> m_utf8_state s = UTF8_ACCEPT \<and> m_utf8_codepoint s = 0
      \<and> \<not> ready (m_read_frame s) \<and> m_local_interface s)"

subsection \<open>Frames that arrive over several reads\<close>

text \<open>
  The asynchronous read that \<^verbatim>\<open>handle_read_frame\<close> starts (lines 742--751) completes
  without an error: the frames that were read stand in the buffer behind what the buffer
  still held, and \<^verbatim>\<open>handle_read_frame\<close> is called again. \<open>frames_arrive\<close> is one such
  completion, \<open>reads\<close> a sequence of them, one list of frames for each.
\<close>

definition frames_arrive :: "endpoint \<Rightarrow> rx list \<Rightarrow> session \<Rightarrow> session" where
  "frames_arrive ep chunk s = handle_read_frame ep Success (s\<lparr>m_buf := m_buf s @ chunk\<rparr>)"

definition reads :: "endpoint \<Rightarrow> rx list list \<Rightarrow> session \<Rightarrow> session" where
  "reads ep chunks s = fold (frames_arrive ep) chunks s"

text \<open>
  The session between two messages: it is OPEN, no fragmented message is in progress, the
  assembler and the validator are as \<^verbatim>\<open>reset_message\<close> leaves them, the frame parser waits
  for a new frame, the buffer is empty, and a connection handler is attached.
\<close>

definition between_messages :: "session \<Rightarrow> bool" where
  "between_messages s =
     (m_state s = OPEN \<and> \<not> m_fragmented s \<and> m_current_message s = []
      \<and> m_utf8_state s = UTF8_ACCEPT \<and> m_utf8_codepoint s = 0
      \<and> \<not> ready (m_read_frame s) \<and> m_buf s = [] \<and> m_local_interface s)"

text \<open>
  A fragmented message as it is sent: the opcode and the payload of its first frame, what
  comes between, and the payload of its last frame. \<open>frames_of\<close> are its frames,
  \<open>data_message\<close> says that its opcode is TEXT or BINARY, \<open>complete\<close> that no CLOSE frame
  comes between its fragments and that it is BINARY or its bytes pass the validator,
  \<open>delivery\<close> is the call of \<^verbatim>\<open>on_message\<close> with the payloads of its fragments in wire
  order, and \<open>deliveries\<close> are these calls for the messages of a list up to the first one
  that is not complete.
\<close>

datatype fragmented = Fragmented opcode_value string "piece list" string

fun frames_of :: "fragmented \<Rightarrow> rx list" where
  "frames_of (Fragmented opc p0 pieces pn) = message_frames opc p0 pieces pn"

fun data_message :: "fragmented \<Rightarrow> bool" where
  "data_message (Fragmented opc p0 pieces pn) = (opc = TEXT \<or> opc = BINARY)"

fun complete :: "fragmented \<Rightarrow> bool" where
  "complete (Fragmented opc p0 pieces pn) =
     (\<not> has_close pieces
      \<and> (opc = BINARY \<or> utf8_passes (UTF8_ACCEPT, 0) (p0 @ payloads pieces @ pn)))"

fun delivery :: "fragmented \<Rightarrow> effect" where
  "delivery (Fragmented opc p0 pieces pn) = on_message opc (p0 @ payloads pieces @ pn)"

fun deliveries :: "fragmented list \<Rightarrow> effect list" where
  "deliveries [] = []"
| "deliveries (m # ms) = (if complete m then delivery m # deliveries ms else [])"

text \<open>
  Where the assembler stands while a list of messages is read: between two messages, or
  inside one, with the opcode, the bytes collected, the validator's state, and what of the
  message is still to come. \<open>phase_frames\<close> are the frames of the message still to come,
  \<open>phase_holds\<close> is the state of the session, \<open>phase_completes\<close> and \<open>phase_deliveries\<close>
  say what the rest of the message and the messages after it lead to.
\<close>

datatype phase = Between | Assembling opcode_value string "utf8_dfa \<times> nat" "piece list" string

fun phase_frames :: "phase \<Rightarrow> rx list" where
  "phase_frames Between = []"
| "phase_frames (Assembling opc msg u pieces pn) =
     map piece_rx pieces @ [Rx_Frame (data_frame CONTINUATION True pn)]"

fun phase_holds :: "phase \<Rightarrow> session \<Rightarrow> bool" where
  "phase_holds Between t = message_start t"
| "phase_holds (Assembling opc msg u pieces pn) t =
     (assembling opc msg u t \<and> (opc = TEXT \<or> opc = BINARY))"

fun phase_completes :: "phase \<Rightarrow> bool" where
  "phase_completes Between = True"
| "phase_completes (Assembling opc msg u pieces pn) =
     (\<not> has_close pieces \<and> (opc = BINARY \<or> utf8_passes u (payloads pieces @ pn)))"

fun phase_deliveries :: "phase \<Rightarrow> fragmented list \<Rightarrow> effect list" where
  "phase_deliveries Between ms = deliveries ms"
| "phase_deliveries (Assembling opc msg u pieces pn) ms =
     (if \<not> has_close pieces \<and> (opc = BINARY \<or> utf8_passes u (payloads pieces @ pn))
      then on_message opc (msg @ payloads pieces @ pn) # deliveries ms else [])"

text \<open>
  What a sequence of reads leads to: the handler has got these messages, and the session
  is between two messages again, or else no longer OPEN.
\<close>

definition reads_result :: "bool \<Rightarrow> effect list \<Rightarrow> session \<Rightarrow> bool" where
  "reads_result ok ds r =
     (messages_delivered (m_trace r) = ds
      \<and> (ok \<longrightarrow> between_messages r) \<and> (\<not> ok \<longrightarrow> m_state r \<noteq> OPEN))"

text \<open>
  A server session with a connection handler as the constructor leaves it, with the
  handshake answered by 101 and \<^verbatim>\<open>handle_write_handshake\<close> still to come; the text of
  the spec's scenario in three fragments that arrive in four reads, with a PING in
  between; and the same followed by a binary message in two fragments with a PONG in
  between, the fourth read holding the end of the first message and the start of the
  second.
\<close>

definition constructed_session :: session where
  "constructed_session =
     (session_ctor True True zero_memory)\<lparr>m_socket_open := True, m_server_http_code := 101\<rparr>"

definition hello_world_reads :: "rx list list" where
  "hello_world_reads =
     [[Rx_Frame (data_frame TEXT False ''Hel'')], [],
      [Rx_Frame (data_frame PING True ''x''), Rx_Frame (data_frame CONTINUATION False ''lo, '')],
      [Rx_Frame (data_frame CONTINUATION True ''World'')]]"

definition two_message_reads :: "rx list list" where
  "two_message_reads =
     [[Rx_Frame (data_frame TEXT False ''Hel'')], [],
      [Rx_Frame (data_frame PING True ''x''), Rx_Frame (data_frame CONTINUATION False ''lo, '')],
      [Rx_Frame (data_frame CONTINUATION True ''World''),
       Rx_Frame (data_frame BINARY False ''Hel'')],
      [Rx_Frame (data_frame PONG True []), Rx_Frame (data_frame CONTINUATION True ''lo'')]]"

subsection \<open>The opening handshake: reading the request\<close>

text \<open>
  \<^verbatim>\<open>std::string::find(pattern, pos)\<close>: the least index from \<open>pos\<close> on at which the pattern
  starts, \<open>None\<close> for \<^verbatim>\<open>npos\<close>.
\<close>

fun find_at :: "string \<Rightarrow> string \<Rightarrow> nat \<Rightarrow> nat option" where
  "find_at pat [] i = (if pat = [] then Some i else None)"
| "find_at pat (c # cs) i =
     (if take (length pat) (c # cs) = pat then Some i else find_at pat cs (Suc i))"

definition str_find :: "string \<Rightarrow> string \<Rightarrow> nat \<Rightarrow> nat option" where
  "str_find s pat pos = (if length s < pos then None else find_at pat (drop pos s) pos)"

text \<open>\<^verbatim>\<open>substr(pos, n)\<close> and \<^verbatim>\<open>substr(pos)\<close>, for a position inside the string.\<close>

definition substr :: "string \<Rightarrow> nat \<Rightarrow> nat \<Rightarrow> string" where
  "substr s pos n = take n (drop pos s)"

definition CRLF :: string where
  "CRLF = [CHR 0x0D, CHR 0x0A]"

lemma find_at_bounds:
  "find_at pat s i = Some e \<Longrightarrow> i \<le> e \<and> e + length pat \<le> i + length s"
proof (induction s arbitrary: i)
  case Nil
  then show ?case by (simp split: if_splits)
next
  case (Cons c cs)
  show ?case
  proof (cases "take (length pat) (c # cs) = pat")
    case True
    from arg_cong [OF True, of length] have "length pat \<le> length (c # cs)"
      by (simp add: min_def split: if_splits)
    with True Cons.prems show ?thesis by simp
  next
    case False
    with Cons.prems have "find_at pat cs (Suc i) = Some e" by simp
    from Cons.IH [OF this] show ?thesis by simp
  qed
qed

lemma str_find_bounds:
  "str_find s pat pos = Some e \<Longrightarrow> pos \<le> e \<and> e + length pat \<le> length s"
  by (auto simp: str_find_def split: if_splits dest!: find_at_bounds)

text \<open>
  The first loop of \<^verbatim>\<open>handle_read_handshake\<close>, lines 404--417: the lines of the
  request, each ended by CR LF; what follows the last CR LF is dropped.
\<close>

function tokens_from :: "string \<Rightarrow> nat \<Rightarrow> string list" where
  "tokens_from raw start =
     (case str_find raw CRLF start of
        None \<Rightarrow> []
      | Some e \<Rightarrow> substr raw start (e - start) # tokens_from raw (e + 2))"
  by pat_completeness auto
termination
proof (relation "measure (\<lambda>(raw, start). Suc (length raw) - start)")
  show "wf (measure (\<lambda>(raw, start). Suc (length raw) - start))" by simp
next
  fix raw start e
  assume "str_find raw CRLF start = Some e"
  from str_find_bounds [OF this] have "start \<le> e" and "e + 2 \<le> length raw"
    by (simp_all add: CRLF_def)
  then have "Suc (length raw) - (e + 2) < Suc (length raw) - start"
    by arith
  then show "((raw, e + 2), (raw, start)) \<in> measure (\<lambda>(raw, start). Suc (length raw) - start)"
    by simp
qed

declare tokens_from.simps [simp del]

text \<open>\<^verbatim>\<open>get_client_header\<close> and \<^verbatim>\<open>get_server_header\<close>, lines 243--248.\<close>

definition get_client_header :: "string \<Rightarrow> session \<Rightarrow> string" where
  "get_client_header key s = get_header key (m_client_headers s)"

definition get_server_header :: "string \<Rightarrow> session \<Rightarrow> string" where
  "get_server_header key s = get_header key (m_server_headers s)"

text \<open>\<^verbatim>\<open>set_header\<close>, lines 259--262.\<close>

definition set_header :: "string \<Rightarrow> string \<Rightarrow> session \<Rightarrow> session" where
  "set_header key val s = s\<lparr>m_server_headers := map_assign key val (m_server_headers s)\<rparr>"

text \<open>
  One turn of the second loop, lines 424--434: a line with a colon and a space in it is a
  header; a header that is already there with a value that is not empty is extended.
\<close>

definition parse_token :: "string \<Rightarrow> session \<Rightarrow> session" where
  "parse_token token s =
     (case str_find token '': '' 0 of
        None \<Rightarrow> s
      | Some e \<Rightarrow>
          (let h = substr token 0 e;
               v = drop (e + 2) token
           in if get_client_header h s = []
              then s\<lparr>m_client_headers := map_assign h v (m_client_headers s)\<rparr>
              else s\<lparr>m_client_headers :=
                      map_assign h (get_client_header h s @ '', '' @ v) (m_client_headers s)\<rparr>))"

text \<open>
  The head of \<^verbatim>\<open>handle_read_handshake\<close>, lines 398--435. The first line is the request
  line (it is also looked at as a header, as every line is).
\<close>

definition parse_handshake :: "string \<Rightarrow> session \<Rightarrow> session" where
  "parse_handshake bytes s =
     (let s1 = s\<lparr>m_raw_client_handshake := m_raw_client_handshake s @ bytes\<rparr>;
          s2 = access_log (m_raw_client_handshake s1) ALOG_HANDSHAKE s1;
          tokens = tokens_from (m_raw_client_handshake s2) 0;
          s3 = (case tokens of [] \<Rightarrow> s2 | t # ts \<Rightarrow> s2\<lparr>m_client_http_request := t\<rparr>)
      in fold parse_token tokens s3)"

text \<open>
  \<^verbatim>\<open>boost::iequals\<close> and \<^verbatim>\<open>boost::ifind_first\<close> in the classic locale: ASCII letters are
  compared without case. \<^verbatim>\<open>ifind_first\<close> looks for a substring.
\<close>

definition to_lower :: "char \<Rightarrow> char" where
  "to_lower c =
     (if 65 \<le> (of_char c :: nat) \<and> (of_char c :: nat) \<le> 90
      then (case c of Char b0 b1 b2 b3 b4 b5 b6 b7 \<Rightarrow> Char b0 b1 b2 b3 b4 True b6 b7)
      else c)"

definition iequals :: "string \<Rightarrow> string \<Rightarrow> bool" where
  "iequals a b = (map to_lower a = map to_lower b)"

definition ifind_first :: "string \<Rightarrow> string \<Rightarrow> bool" where
  "ifind_first s pat = (str_find (map to_lower s) (map to_lower pat) 0 \<noteq> None)"

text \<open>
  \<^verbatim>\<open>atoi\<close> of the C library, which is \<^verbatim>\<open>strtol\<close> in base ten cut to an \<^verbatim>\<open>int\<close>: white
  space is skipped, then an optional sign and the decimal digits that follow are read;
  anything after them is ignored, and without a digit the value is 0. \<^verbatim>\<open>strtol\<close> returns
  a \<^verbatim>\<open>long\<close> of 64 bits and saturates: a number above \<open>2 ^ 63 - 1\<close> gives
  \<open>2 ^ 63 - 1\<close>, a number below \<open>- 2 ^ 63\<close> gives \<open>- 2 ^ 63\<close>. The cut to the \<^verbatim>\<open>int\<close>
  of 32 bits keeps the low 32 bits, read with their sign.
\<close>

definition isspace :: "char \<Rightarrow> bool" where
  "isspace c = ((of_char c :: nat) = 32 \<or> (9 \<le> (of_char c :: nat) \<and> (of_char c :: nat) \<le> 13))"

definition isdigit :: "char \<Rightarrow> bool" where
  "isdigit c = (48 \<le> (of_char c :: nat) \<and> (of_char c :: nat) \<le> 57)"

fun digits_value :: "nat \<Rightarrow> string \<Rightarrow> nat" where
  "digits_value acc [] = acc"
| "digits_value acc (c # cs) =
     (if isdigit c then digits_value (acc * 10 + (of_char c - 48)) cs else acc)"

definition strtol :: "string \<Rightarrow> int" where
  "strtol s =
     (case dropWhile isspace s of
        [] \<Rightarrow> 0
      | c # cs \<Rightarrow>
          if c = CHR ''-'' then max (- 9223372036854775808) (- int (digits_value 0 cs))
          else if c = CHR ''+'' then min 9223372036854775807 (int (digits_value 0 cs))
          else min 9223372036854775807 (int (digits_value 0 (c # cs))))"

definition atoi :: "string \<Rightarrow> int" where
  "atoi s = signed_take_bit 31 (strtol s)"

text \<open>A number written to a stream: its decimal digits.\<close>

fun show_nat :: "nat \<Rightarrow> string" where
  "show_nat n =
     (if n < 10 then [''0123456789'' ! n]
      else show_nat (n div 10) @ [''0123456789'' ! (n mod 10)])"

declare show_nat.simps [simp del]

text \<open>The class \<^verbatim>\<open>handshake_error\<close>, lines 129--144; the HTTP message defaults to the empty string.\<close>

record handshake_error =
  m_msg :: string
  m_http_error_code :: int
  m_http_error_msg :: string

definition handshake_error :: "string \<Rightarrow> int \<Rightarrow> handshake_error" where
  "handshake_error msg http_error =
     \<lparr>m_msg = msg, m_http_error_code = http_error, m_http_error_msg = []\<rparr>"

datatype hs_outcome = Hs_Return session | Hs_Throw handshake_error session

definition hs_then :: "hs_outcome \<Rightarrow> (session \<Rightarrow> hs_outcome) \<Rightarrow> hs_outcome" where
  "hs_then r k = (case r of Hs_Return s \<Rightarrow> k s | Hs_Throw e s \<Rightarrow> Hs_Throw e s)"

text \<open>
  The checks of the \<^verbatim>\<open>try\<close> block of \<^verbatim>\<open>handle_read_handshake\<close>, lines 442--501, one
  function for each group of statements, in the order of the source.
\<close>

text \<open>Lines 442--458: the method and the HTTP version; the resource is recorded.\<close>

definition check_request_line :: "session \<Rightarrow> hs_outcome" where
  "check_request_line s =
     (if substr (m_client_http_request s) 0 4 \<noteq> ''GET ''
      then Hs_Throw (handshake_error (''Websocket handshake has invalid method: '' @
                       substr (m_client_http_request s) 0 4) 400) s
      else
        (case str_find (m_client_http_request s) '' HTTP/1.1'' 4 of
           None \<Rightarrow> Hs_Throw (handshake_error ''Websocket handshake has invalid HTTP version'' 400) s
         | Some e \<Rightarrow> Hs_Return (s\<lparr>m_resource := substr (m_client_http_request s) 4 (e - 4)\<rparr>)))"

text \<open>Lines 460--467. The call of \<^verbatim>\<open>validate_host\<close> is recorded in the trace.\<close>

definition check_host :: "endpoint \<Rightarrow> session \<Rightarrow> hs_outcome" where
  "check_host ep s =
     (let h = get_client_header ''Host'' s
      in if h = [] then Hs_Throw (handshake_error ''Required Host header is missing'' 400) s
         else if \<not> validate_host ep h
           then Hs_Throw (handshake_error (''Host '' @ h @ '' is not one of this server's names.'') 400)
                  (emit (Validate_Host h) s)
         else Hs_Return (emit (Validate_Host h) s))"

text \<open>Lines 469--475.\<close>

definition check_upgrade :: "session \<Rightarrow> hs_outcome" where
  \<open>check_upgrade s =
     (let h = get_client_header ''Upgrade'' s
      in if h = [] then Hs_Throw (handshake_error ''Required Upgrade header is missing'' 400) s
         else if \<not> iequals h ''websocket''
           then Hs_Throw (handshake_error (''Upgrade header was '' @ h @
                            '' instead of "websocket"'') 400) s
         else Hs_Return s)\<close>

text \<open>Lines 477--484.\<close>

definition check_connection :: "session \<Rightarrow> hs_outcome" where
  \<open>check_connection s =
     (let h = get_client_header ''Connection'' s
      in if h = [] then Hs_Throw (handshake_error ''Required Connection header is missing'' 400) s
         else if \<not> ifind_first h ''upgrade''
           then Hs_Throw (handshake_error (''Connection header, "'' @ h @
                            ''", does not contain required token "upgrade"'') 400) s
         else Hs_Return s)\<close>

text \<open>Lines 486--488.\<close>

definition check_key :: "session \<Rightarrow> hs_outcome" where
  "check_key s =
     (if get_client_header ''Sec-WebSocket-Key'' s = []
      then Hs_Throw (handshake_error ''Required Sec-WebSocket-Key header is missing'' 400) s
      else Hs_Return s)"

text \<open>Lines 490--501. The version is assigned before it is compared.\<close>

definition check_version :: "session \<Rightarrow> hs_outcome" where
  "check_version s =
     (let h = get_client_header ''Sec-WebSocket-Version'' s
      in if h = []
         then Hs_Throw (handshake_error ''Required Sec-WebSocket-Version header is missing'' 400) s
         else
           (let s1 = s\<lparr>m_version := word_of_int (atoi h)\<rparr>
            in if m_version s1 \<noteq> 7 \<and> m_version s1 \<noteq> 8 \<and> m_version s1 \<noteq> 13
               then Hs_Throw (handshake_error
                      (''This server doesn't support WebSocket protocol version '' @
                       show_nat (unat (m_version s1))) 400) s1
               else Hs_Return s1))"

definition handshake_checks :: "endpoint \<Rightarrow> (session \<Rightarrow> hs_outcome) list" where
  "handshake_checks ep =
     [check_request_line, check_host ep, check_upgrade, check_connection, check_key, check_version]"

text \<open>Statements that may throw, one after the other.\<close>

fun run_checks :: "(session \<Rightarrow> hs_outcome) list \<Rightarrow> session \<Rightarrow> hs_outcome" where
  "run_checks [] s = Hs_Return s"
| "run_checks (c # cs) s = hs_then (c s) (run_checks cs)"

text \<open>Lines 503--511: the origin, from the header the version names.\<close>

definition record_origin :: "session \<Rightarrow> session" where
  "record_origin s =
     (let h = (if m_version s < 13 then get_client_header ''Sec-WebSocket-Origin'' s
               else get_client_header ''Origin'' s)
      in if h \<noteq> [] then s\<lparr>m_client_origin := h\<rparr> else s)"

text \<open>
  Lines 517--522: the connection handler's \<^verbatim>\<open>validate\<close>, a parameter of the model: it
  may change the session and may throw a \<^verbatim>\<open>handshake_error\<close>. Then the response is 101.
\<close>

definition local_validate :: "(session \<Rightarrow> hs_outcome) \<Rightarrow> session \<Rightarrow> hs_outcome" where
  "local_validate validate s =
     (if m_local_interface s then validate (emit On_Validate s) else Hs_Return s)"

text \<open>The \<^verbatim>\<open>try\<close> block, lines 438--522.\<close>

definition handshake_try :: "endpoint \<Rightarrow> (session \<Rightarrow> hs_outcome) \<Rightarrow> session \<Rightarrow> hs_outcome" where
  "handshake_try ep validate s =
     hs_then (run_checks (handshake_checks ep) s)
       (\<lambda>s1. hs_then (local_validate validate (record_origin s1))
          (\<lambda>s2. Hs_Return (s2\<lparr>m_server_http_code := 101,
                               m_server_http_string := ''Switching Protocols''\<rparr>)))"

text \<open>
  The \<^verbatim>\<open>catch\<close>, lines 523--532. The code of the exception is an \<^verbatim>\<open>int\<close>, the member a
  \<^verbatim>\<open>uint16_t\<close>.
\<close>

definition handshake_catch :: "handshake_error \<Rightarrow> session \<Rightarrow> session" where
  "handshake_catch e s =
     (let s1 = access_log (m_msg e) ALOG_HANDSHAKE s;
          s2 = log (''Caught handshake exception: '' @ m_msg e) LOG_ERROR s1
      in s2\<lparr>m_server_http_code := nat (m_http_error_code e mod 65536),
            m_server_http_string := m_http_error_msg e\<rparr>)"

subsection \<open>The opening handshake: writing the response\<close>

text \<open>
  Modelled from the spec: the class \<^verbatim>\<open>SHA1\<close> (sha1/sha1.h) is not among the sources. The
  spec names SHA-1; this is the function of FIPS 180 on 32-bit words, here numbers below
  \<open>2 ^ 32\<close> with the wrap-around written out.
\<close>

definition m32 :: "nat \<Rightarrow> nat" where
  "m32 x = x mod 4294967296"

definition rotl :: "nat \<Rightarrow> nat \<Rightarrow> nat" where
  "rotl n x = m32 (x * 2 ^ n) + x div 2 ^ (32 - n)"

definition sha1_f :: "nat \<Rightarrow> nat \<Rightarrow> nat \<Rightarrow> nat \<Rightarrow> nat" where
  "sha1_f t b c d =
     (if t < 20 then (b AND c) OR ((4294967295 - b) AND d)
      else if t < 40 then b XOR c XOR d
      else if t < 60 then (b AND c) OR (b AND d) OR (c AND d)
      else b XOR c XOR d)"

definition sha1_k :: "nat \<Rightarrow> nat" where
  "sha1_k t =
     (if t < 20 then 0x5A827999
      else if t < 40 then 0x6ED9EBA1
      else if t < 60 then 0x8F1BBCDC
      else 0xCA62C1D6)"

text \<open>
  The eighty rounds on one block. \<open>w\<close> holds the sixteen words of the message schedule
  from round \<open>t\<close> on.
\<close>

function sha1_rounds :: "nat \<Rightarrow> nat list \<Rightarrow> nat \<Rightarrow> nat \<Rightarrow> nat \<Rightarrow> nat \<Rightarrow> nat \<Rightarrow> nat list" where
  "sha1_rounds t w a b c d e =
     (if 80 \<le> t then [a, b, c, d, e]
      else sha1_rounds (t + 1)
             (tl w @ [rotl 1 (w ! 13 XOR w ! 8 XOR w ! 2 XOR w ! 0)])
             (m32 (rotl 5 a + sha1_f t b c d + e + sha1_k t + w ! 0)) a (rotl 30 b) c d)"
  by pat_completeness auto
termination
  by (relation "measure (\<lambda>(t, w, a, b, c, d, e). 80 - t)") auto

declare sha1_rounds.simps [simp del]

definition sha1_block :: "nat list \<Rightarrow> nat list \<Rightarrow> nat list" where
  "sha1_block h w =
     map2 (\<lambda>x y. m32 (x + y)) h (sha1_rounds 0 w (h ! 0) (h ! 1) (h ! 2) (h ! 3) (h ! 4))"

function sha1_blocks :: "nat list \<Rightarrow> nat list \<Rightarrow> nat list" where
  "sha1_blocks h ws = (if ws = [] then h else sha1_blocks (sha1_block h (take 16 ws)) (drop 16 ws))"
  by pat_completeness auto
termination
  by (relation "measure (\<lambda>(h, ws). length ws)") auto

declare sha1_blocks.simps [simp del]

fun be_words :: "nat list \<Rightarrow> nat list" where
  "be_words (a # b # c # d # rest) = (((a * 256 + b) * 256 + c) * 256 + d) # be_words rest"
| "be_words rest = []"

text \<open>The padding: the bit 1, zeros up to 56 modulo 64, and the length in bits as 64 bits.\<close>

fun zeros :: "nat \<Rightarrow> nat list" where
  "zeros n = (if n = 0 then [] else 0 # zeros (n - 1))"

declare zeros.simps [simp del]

definition be_bytes8 :: "nat \<Rightarrow> nat list" where
  "be_bytes8 n =
     [n div 72057594037927936 mod 256, n div 281474976710656 mod 256,
      n div 1099511627776 mod 256, n div 4294967296 mod 256,
      n div 16777216 mod 256, n div 65536 mod 256, n div 256 mod 256, n mod 256]"

definition sha1_pad :: "nat list \<Rightarrow> nat list" where
  "sha1_pad bytes =
     bytes @ [128] @ zeros ((119 - length bytes mod 64) mod 64) @ be_bytes8 (8 * length bytes)"

definition sha1 :: "string \<Rightarrow> nat list" where
  "sha1 msg =
     sha1_blocks [0x67452301, 0xEFCDAB89, 0x98BADCFE, 0x10325476, 0xC3D2E1F0]
       (be_words (sha1_pad (map of_char msg)))"

text \<open>
  \<^verbatim>\<open>SHA1::Result\<close> fills five 32-bit words and says whether it could; it can for every
  message this model can hold.
\<close>

definition sha1_result :: "string \<Rightarrow> nat list option" where
  "sha1_result msg = Some (sha1 msg)"

text \<open>
  \<^verbatim>\<open>htonl\<close> on each word and the cast of the array to bytes: whatever the byte order of the
  host, the twenty bytes are the five words with the most significant byte first.
\<close>

fun network_bytes :: "nat list \<Rightarrow> nat list" where
  "network_bytes [] = []"
| "network_bytes (w # ws) =
     [w div 16777216 mod 256, w div 65536 mod 256, w div 256 mod 256, w mod 256] @
     network_bytes ws"

text \<open>
  Modelled from the spec: \<^verbatim>\<open>base64_encode\<close> (base64/base64.h) is not among the sources.
  The spec names base64; this is the encoding of RFC 4648 with the standard alphabet and
  padding.
\<close>

definition base64_chars :: string where
  "base64_chars = ''ABCDEFGHIJKLMNOPQRSTUVWXYZabcdefghijklmnopqrstuvwxyz0123456789+/''"

fun base64_encode :: "nat list \<Rightarrow> string" where
  "base64_encode [] = []"
| "base64_encode [a] =
     [base64_chars ! (a div 4), base64_chars ! (a mod 4 * 16), CHR ''='', CHR ''='']"
| "base64_encode [a, b] =
     [base64_chars ! (a div 4), base64_chars ! (a mod 4 * 16 + b div 16),
      base64_chars ! (b mod 16 * 4), CHR ''='']"
| "base64_encode (a # b # c # rest) =
     [base64_chars ! (a div 4), base64_chars ! (a mod 4 * 16 + b div 16),
      base64_chars ! (b mod 16 * 4 + c div 64), base64_chars ! (c mod 64)] @
     base64_encode rest"

text \<open>
  \<^verbatim>\<open>c_str()\<close> handed to a function that takes a \<^verbatim>\<open>const char*\<close>: the characters before
  the first NUL.
\<close>

definition c_str :: "string \<Rightarrow> string" where
  "c_str s = takeWhile (\<lambda>c. c \<noteq> CHR 0x00) s"

definition GUID :: string where
  "GUID = ''258EAFA5-E914-47DA-95CA-C5AB0DC85B11''"

text \<open>\<^verbatim>\<open>write_handshake\<close>, lines 538--599.\<close>

definition write_handshake :: "endpoint \<Rightarrow> session \<Rightarrow> session" where
  "write_handshake ep s =
     (let s1 =
            (if m_server_http_code s = 101 then
               (case sha1_result (c_str (get_client_header ''Sec-WebSocket-Key'' s @ GUID)) of
                  Some message_digest \<Rightarrow>
                    set_header ''Connection'' ''Upgrade''
                      (set_header ''Upgrade'' ''websocket''
                        (set_header ''Sec-WebSocket-Accept''
                          (base64_encode (network_bytes message_digest)) s))
                | None \<Rightarrow>
                    (log ''Error computing handshake sha1 hash.'' LOG_ERROR s)
                      \<lparr>m_server_http_code := 500, m_server_http_string := []\<rparr>)
             else s);
          s2 = set_header ''Server'' ''WebSocket++/2011-09-25'' s1;
          h = ''HTTP/1.1 '' @ show_nat (m_server_http_code s2) @ '' '' @
              (if m_server_http_string s2 \<noteq> [] then m_server_http_string s2
               else lookup_http_error_string ep (m_server_http_code s2)) @ CRLF @
              concat (map (\<lambda>(k, v). k @ '': '' @ v @ CRLF) (m_server_headers s2)) @ CRLF;
          s3 = s2\<lparr>m_raw_server_handshake := h\<rparr>
      in emit (Async_Write_Handshake h) s3)"

text \<open>\<^verbatim>\<open>handle_read_handshake\<close>, lines 396--535. The error code of the read is not looked at.\<close>

definition handle_read_handshake ::
  "endpoint \<Rightarrow> (session \<Rightarrow> hs_outcome) \<Rightarrow> string \<Rightarrow> session \<Rightarrow> session" where
  "handle_read_handshake ep validate bytes s =
     write_handshake ep
       (case handshake_try ep validate (parse_handshake bytes s) of
          Hs_Return s' \<Rightarrow> s'
        | Hs_Throw e s' \<Rightarrow> handshake_catch e s')"

text \<open>\<^verbatim>\<open>read_handshake\<close> and \<^verbatim>\<open>on_connect\<close>, lines 200--202 and 603--625.\<close>

definition read_handshake :: "session \<Rightarrow> session" where
  "read_handshake s = emit Async_Read_Handshake (s\<lparr>m_timer := Some Handshake_Wait\<rparr>)"

definition on_connect :: "session \<Rightarrow> session" where
  "on_connect s = read_handshake s"

text \<open>
  \<^verbatim>\<open>log_open_result\<close>, lines 1085--1095, as one entry of the trace.
\<close>

definition log_open_result :: "session \<Rightarrow> session" where
  "log_open_result s = emit Log_Open_Result s"

text \<open>\<^verbatim>\<open>handle_write_handshake\<close>, lines 362--392.\<close>

definition handle_write_handshake :: "endpoint \<Rightarrow> bool \<Rightarrow> session \<Rightarrow> session" where
  "handle_write_handshake ep error s =
     (if error then drop_tcp True (log_error ''Error writing handshake response'' s)
      else
        (let s1 = log_open_result s
         in if m_server_http_code s1 \<noteq> 101
            then drop_tcp True
                   (log (''Handshake ended with HTTP error: '' @ show_nat (m_server_http_code s1) @
                         '' '' @
                         (if m_server_http_string s1 \<noteq> [] then m_server_http_string s1
                          else lookup_http_error_string ep (m_server_http_code s1)))
                      LOG_ERROR s1)
            else
              (let s2 = s1\<lparr>m_state := OPEN, m_timer := None\<rparr>;
                   s3 = (if m_local_interface s2 then emit On_Open s2 else s2)
               in read_frame ep (reset_message s3))))"

text \<open>
  A statement of the \<^verbatim>\<open>try\<close> block went through without throwing.
\<close>

definition hs_passes :: "hs_outcome \<Rightarrow> bool" where
  "hs_passes r = (case r of Hs_Return s \<Rightarrow> True | Hs_Throw e s \<Rightarrow> False)"

text \<open>The session of a server after \<^verbatim>\<open>on_connect\<close>, with a handler that accepts every request.\<close>

definition accepted_session :: session where
  "accepted_session = on_connect ((session_ctor True True zero_memory)\<lparr>m_socket_open := True\<rparr>)"

text \<open>
  The session an outcome of the handshake carries.
\<close>

definition hs_session :: "hs_outcome \<Rightarrow> session" where
  "hs_session r = (case r of Hs_Return s \<Rightarrow> s | Hs_Throw e s \<Rightarrow> s)"


text \<open>
  The handshake of RFC 6455 with its sample key, the same with a key that holds a NUL
  byte, and the session after the \<^verbatim>\<open>try\<close> block of \<^verbatim>\<open>handle_read_handshake\<close> on a request.
\<close>

definition canonical_request :: string where
  "canonical_request =
     ''GET /chat HTTP/1.1'' @ CRLF @ ''Host: example.com'' @ CRLF @ ''Upgrade: websocket'' @ CRLF @
     ''Connection: Upgrade'' @ CRLF @ ''Sec-WebSocket-Key: dGhlIHNhbXBsZSBub25jZQ=='' @ CRLF @
     ''Origin: http://example.com'' @ CRLF @ ''Sec-WebSocket-Version: 13'' @ CRLF @ CRLF"

definition nul_key_request :: string where
  "nul_key_request =
     ''GET /chat HTTP/1.1'' @ CRLF @ ''Host: example.com'' @ CRLF @ ''Upgrade: websocket'' @ CRLF @
     ''Connection: Upgrade'' @ CRLF @ ''Sec-WebSocket-Key: '' @ [CHR ''a'', CHR 0x00, CHR ''b''] @ CRLF @
     ''Sec-WebSocket-Version: 13'' @ CRLF @ CRLF"


definition handshaken :: "string \<Rightarrow> session" where
  "handshaken request =
     hs_session (handshake_try example_endpoint Hs_Return (parse_handshake request accepted_session))"

text \<open>The calls of \<^verbatim>\<open>on_open\<close> and \<^verbatim>\<open>on_close\<close> in a trace, in order.\<close>

fun open_close_calls :: "effect list \<Rightarrow> effect list" where
  "open_close_calls [] = []"
| "open_close_calls (On_Open # es) = On_Open # open_close_calls es"
| "open_close_calls (On_Close # es) = On_Close # open_close_calls es"
| "open_close_calls (e # es) = open_close_calls es"

text \<open>
  A local close that the peer never answers: the handshake response is written, the
  application closes, the frame is written, the close timer expires, and the pending read
  ends aborted.
\<close>

definition close_times_out :: "endpoint \<Rightarrow> session \<Rightarrow> session" where
  "close_times_out ep s =
     handle_read_frame ep Operation_Aborted
       (handle_close_expired Success
         (handle_write_frame False
           (close ep NORMAL ''bye''
             (handle_write_handshake ep False s))))"

section \<open>Facts used throughout\<close>

lemma frames_written_append: "frames_written (xs @ ys) = frames_written xs @ frames_written ys"
  by (induction xs rule: frames_written.induct) simp_all

lemma messages_delivered_append:
  "messages_delivered (xs @ ys) = messages_delivered xs @ messages_delivered ys"
  by (induction xs rule: messages_delivered.induct) simp_all

lemmas run_defs =
  handle_read_frame_def consume_and_process_def catch_frame_exception_def
  process_frame_def process_text_def process_binary_def process_continuation_def
  process_ping_def process_pong_def process_close_def deliver_message_def
  session_validate_utf8_def and_then_def extract_payload_def reset_message_def
  send_close_def write_frame_def set_frame_def set_status_def drop_tcp_def
  log_close_result_def log_error_def log_def access_log_def emit_def
  data_frame_def frame_reset_def decode_def tail_to_def in_range_def
  thrown_def session_of_def Let_def

lemmas example_defs =
  open_session_def closing_session_def session_ctor_def zero_memory_def example_endpoint_def

lemma fragmented_session_facts:
  "m_state fragmented_session = OPEN" "m_fragmented fragmented_session"
  "m_current_opcode fragmented_session = BINARY"
  "m_utf8_state fragmented_session = UTF8_ACCEPT" "m_utf8_codepoint fragmented_session = 0"
  by (simp_all add: fragmented_session_def consume_and_process_def process_frame_def
      process_binary_def and_then_def session_of_def extract_payload_def log_def emit_def Let_def
      open_session_def reset_message_def session_ctor_def data_frame_def frame_reset_def)

lemma validate_utf8_append:
  "validate_utf8 (a @ b) u =
     (if snd (validate_utf8 a u) then validate_utf8 b (fst (validate_utf8 a u))
      else validate_utf8 a u)"
  by (induction a arbitrary: u) simp_all

lemma read_loop_closed: "m_state s = CLOSED \<Longrightarrow> read_loop ep xs s = s"
  by (cases xs) simp_all

lemma step_ping:
  assumes "assembling opc msg u s"
  shows "\<exists>s'. consume_and_process ep (piece_rx (Ping p)) s = Return s'
            \<and> assembling opc msg u s'
            \<and> messages_delivered (m_trace s') = messages_delivered (m_trace s)"
  using assms
  by (simp add: assembling_def consume_and_process_def process_frame_def process_ping_def
      and_then_def write_frame_def set_frame_def log_def access_log_def emit_def Let_def
      data_frame_def frame_reset_def messages_delivered_append)

lemma step_pong:
  assumes "assembling opc msg u s"
  shows "\<exists>s'. consume_and_process ep (piece_rx (Pong p)) s = Return s'
            \<and> assembling opc msg u s'
            \<and> messages_delivered (m_trace s') = messages_delivered (m_trace s)"
  using assms
  by (simp add: assembling_def consume_and_process_def process_frame_def process_pong_def
      and_then_def log_def access_log_def emit_def Let_def
      data_frame_def frame_reset_def messages_delivered_append)

lemma step_close:
  assumes "assembling opc msg u s"
  shows "\<exists>s'. consume_and_process ep (piece_rx (Close c m)) s = Return s'
            \<and> m_state s' = CLOSED
            \<and> messages_delivered (m_trace s') = messages_delivered (m_trace s)"
  using assms
  by (simp add: assembling_def consume_and_process_def process_frame_def process_close_def
      send_close_def set_status_def
      and_then_def write_frame_def log_def access_log_def emit_def Let_def
      data_frame_def frame_reset_def messages_delivered_append)

lemma step_continuation_binary:
  assumes "assembling BINARY msg u s"
  shows "\<exists>s'. consume_and_process ep (Rx_Frame (data_frame CONTINUATION False p)) s = Return s'
            \<and> assembling BINARY (msg @ p) u s'
            \<and> messages_delivered (m_trace s') = messages_delivered (m_trace s)"
  using assms
  by (simp add: assembling_def consume_and_process_def process_frame_def process_continuation_def
      extract_payload_def and_then_def log_def emit_def Let_def
      data_frame_def frame_reset_def messages_delivered_append)

lemma step_continuation_text:
  assumes "assembling TEXT msg u s" and "snd (validate_utf8 p u)"
  shows "\<exists>s'. consume_and_process ep (Rx_Frame (data_frame CONTINUATION False p)) s = Return s'
            \<and> assembling TEXT (msg @ p) (fst (validate_utf8 p u)) s'
            \<and> messages_delivered (m_trace s') = messages_delivered (m_trace s)"
  using assms
  by (simp add: assembling_def consume_and_process_def process_frame_def process_continuation_def
      session_validate_utf8_def
      extract_payload_def and_then_def log_def emit_def Let_def
      data_frame_def frame_reset_def messages_delivered_append)

lemma catch_payload_violation:
  assumes "m_state s = OPEN"
  shows "\<exists>s'. catch_frame_exception ep w PAYLOAD_VIOLATION s = (False, s')
            \<and> closed_for_payload ep (messages_delivered (m_trace s)) s'"
  using assms
  by (simp add: catch_frame_exception_def closed_for_payload_def send_close_def set_status_def
      write_frame_def log_def access_log_def emit_def Let_def close_status_defs
      messages_delivered_append frames_written_append)

lemma step_continuation_text_bad:
  assumes "assembling TEXT msg u s" and "\<not> snd (validate_utf8 p u)"
  shows "\<exists>w s'. consume_and_process ep (Rx_Frame (data_frame CONTINUATION fin p)) s
              = Throw w PAYLOAD_VIOLATION s'
            \<and> m_state s' = OPEN
            \<and> messages_delivered (m_trace s') = messages_delivered (m_trace s)"
  using assms
  by (simp add: assembling_def consume_and_process_def process_frame_def process_continuation_def
      session_validate_utf8_def
      extract_payload_def and_then_def log_def emit_def Let_def
      data_frame_def frame_reset_def messages_delivered_append)

lemma last_continuation_binary:
  assumes "assembling BINARY msg u s"
  shows "\<exists>s'. consume_and_process ep (Rx_Frame (data_frame CONTINUATION True p)) s = Return s'
            \<and> delivered (messages_delivered (m_trace s)) (On_Message_Binary (msg @ p)) s'"
  using assms
  by (simp add: assembling_def delivered_def consume_and_process_def process_frame_def
      process_continuation_def deliver_message_def reset_message_def
      extract_payload_def and_then_def log_def emit_def Let_def
      data_frame_def frame_reset_def messages_delivered_append)

lemma last_continuation_text:
  assumes "assembling TEXT msg u s" and "utf8_passes u p"
  shows "\<exists>s'. consume_and_process ep (Rx_Frame (data_frame CONTINUATION True p)) s = Return s'
            \<and> delivered (messages_delivered (m_trace s)) (On_Message_Text (msg @ p)) s'"
  using assms
  by (simp add: assembling_def delivered_def utf8_passes_def consume_and_process_def process_frame_def
      process_continuation_def deliver_message_def reset_message_def session_validate_utf8_def
      extract_payload_def and_then_def log_def emit_def Let_def
      data_frame_def frame_reset_def messages_delivered_append)

lemma last_continuation_text_incomplete:
  assumes "assembling TEXT msg u s" and "snd (validate_utf8 p u)"
    and "fst (fst (validate_utf8 p u)) \<noteq> UTF8_ACCEPT"
  shows "\<exists>w s'. consume_and_process ep (Rx_Frame (data_frame CONTINUATION True p)) s
              = Throw w PAYLOAD_VIOLATION s'
            \<and> m_state s' = OPEN
            \<and> messages_delivered (m_trace s') = messages_delivered (m_trace s)"
  using assms
  by (simp add: assembling_def consume_and_process_def process_frame_def
      process_continuation_def deliver_message_def session_validate_utf8_def
      extract_payload_def and_then_def log_def emit_def Let_def
      data_frame_def frame_reset_def messages_delivered_append)

lemma read_loop_return:
  "m_state s = OPEN \<Longrightarrow> consume_and_process ep x s = Return s' \<Longrightarrow>
   read_loop ep (x # xs) s = read_loop ep xs s'"
  by simp

lemma read_loop_break:
  "m_state s = OPEN \<Longrightarrow> consume_and_process ep x s = Throw w c s' \<Longrightarrow>
   catch_frame_exception ep w c s' = (False, s'') \<Longrightarrow> read_loop ep (x # xs) s = s''"
  by simp

lemma utf8_passes_append:
  "snd (validate_utf8 a u) \<Longrightarrow>
   utf8_passes u (a @ b) = utf8_passes (fst (validate_utf8 a u)) b"
  by (simp add: utf8_passes_def validate_utf8_append)

lemma utf8_passes_append_bad:
  "\<not> snd (validate_utf8 a u) \<Longrightarrow> \<not> utf8_passes u (a @ b)"
  by (simp add: utf8_passes_def validate_utf8_append)

lemma first_frame_binary:
  assumes "message_start s"
  shows "\<exists>s'. consume_and_process ep (Rx_Frame (data_frame BINARY False p)) s = Return s'
            \<and> assembling BINARY p (UTF8_ACCEPT, 0) s'
            \<and> messages_delivered (m_trace s') = messages_delivered (m_trace s)"
  using assms
  by (simp add: message_start_def assembling_def consume_and_process_def process_frame_def
      process_binary_def extract_payload_def and_then_def log_def emit_def Let_def
      data_frame_def frame_reset_def messages_delivered_append)

lemma first_frame_text:
  assumes "message_start s" and "snd (validate_utf8 p (UTF8_ACCEPT, 0))"
  shows "\<exists>s'. consume_and_process ep (Rx_Frame (data_frame TEXT False p)) s = Return s'
            \<and> assembling TEXT p (fst (validate_utf8 p (UTF8_ACCEPT, 0))) s'
            \<and> messages_delivered (m_trace s') = messages_delivered (m_trace s)"
  using assms
  by (simp add: message_start_def assembling_def consume_and_process_def process_frame_def
      process_text_def process_binary_def session_validate_utf8_def
      extract_payload_def and_then_def log_def emit_def Let_def
      data_frame_def frame_reset_def messages_delivered_append)

lemma first_frame_text_bad:
  assumes "message_start s" and "\<not> snd (validate_utf8 p (UTF8_ACCEPT, 0))"
  shows "\<exists>w s'. consume_and_process ep (Rx_Frame (data_frame TEXT fin p)) s
              = Throw w PAYLOAD_VIOLATION s'
            \<and> m_state s' = OPEN
            \<and> messages_delivered (m_trace s') = messages_delivered (m_trace s)"
  using assms
  by (simp add: message_start_def consume_and_process_def process_frame_def
      process_text_def session_validate_utf8_def
      and_then_def log_def emit_def Let_def
      data_frame_def frame_reset_def messages_delivered_append)

lemma consume_not_open:
  assumes "m_state s \<noteq> OPEN"
  shows "m_state (session_of (consume_and_process ep x s)) \<noteq> OPEN
       \<and> messages_delivered (m_trace (session_of (consume_and_process ep x s)))
           = messages_delivered (m_trace s)"
  using assms
  by (cases "m_state s")
     (simp_all add: consume_and_process_def process_frame_def process_close_def and_then_def
        log_def emit_def session_of_def Let_def messages_delivered_append split: rx.splits)

lemma catch_messages:
  "messages_delivered (m_trace (snd (catch_frame_exception ep w c s)))
     = messages_delivered (m_trace s)"
  by (simp add: catch_frame_exception_def send_close_def set_status_def write_frame_def
      drop_tcp_def log_def access_log_def emit_def Let_def messages_delivered_append)

lemma catch_not_open:
  "m_state s \<noteq> OPEN \<Longrightarrow> m_state (snd (catch_frame_exception ep w c s)) \<noteq> OPEN"
  by (simp add: catch_frame_exception_def send_close_def set_status_def write_frame_def
      drop_tcp_def log_def access_log_def emit_def Let_def)

lemma catch_break_not_open:
  "\<not> fst (catch_frame_exception ep w c s) \<Longrightarrow>
   m_state (snd (catch_frame_exception ep w c s)) \<noteq> OPEN"
  by (simp add: catch_frame_exception_def send_close_def set_status_def write_frame_def
      drop_tcp_def log_def access_log_def emit_def Let_def split: if_splits)

lemma catch_buf:
  "m_buf (snd (catch_frame_exception ep w c s)) = m_buf s"
  by (simp add: catch_frame_exception_def send_close_def set_status_def write_frame_def
      drop_tcp_def log_def access_log_def emit_def Let_def)

lemma catch_not_ready:
  "\<not> ready (m_read_frame (snd (catch_frame_exception ep w c s)))"
  by (simp add: catch_frame_exception_def send_close_def set_status_def write_frame_def
      drop_tcp_def log_def access_log_def emit_def Let_def frame_reset_def)

lemma consume_buf:
  "\<not> ready (m_read_frame s) \<Longrightarrow>
   m_buf (session_of (consume_and_process ep x s)) = tl (m_buf s)"
  by (simp add: consume_and_process_def process_frame_def process_text_def process_binary_def
      process_continuation_def process_ping_def process_pong_def process_close_def
      deliver_message_def session_validate_utf8_def and_then_def extract_payload_def
      reset_message_def send_close_def write_frame_def set_frame_def set_status_def
      log_def access_log_def emit_def session_of_def Let_def
      split: rx.splits opcode_value.splits)

lemma consume_return_not_ready:
  "consume_and_process ep x s = Return s' \<Longrightarrow> \<not> ready (m_read_frame s')"
  by (auto simp add: consume_and_process_def process_frame_def and_then_def Let_def frame_reset_def
      split: rx.splits if_splits outcome.splits)

lemma m_buf_same: "m_buf s = b \<Longrightarrow> s\<lparr>m_buf := b\<rparr> = s"
  by auto

lemma read_loop_not_open:
  "m_state s \<noteq> OPEN \<Longrightarrow>
   m_state (read_loop ep xs s) \<noteq> OPEN
   \<and> messages_delivered (m_trace (read_loop ep xs s)) = messages_delivered (m_trace s)"
proof (induction xs arbitrary: s)
  case Nil
  then show ?case by simp
next
  case (Cons x xs)
  show ?case
  proof (cases "m_state s = CLOSED")
    case True
    with Cons.prems show ?thesis by simp
  next
    case False
    note c = consume_not_open [OF Cons.prems, of ep x]
    show ?thesis
    proof (cases "consume_and_process ep x s")
      case (Return s')
      with c have "m_state s' \<noteq> OPEN"
        and "messages_delivered (m_trace s') = messages_delivered (m_trace s)"
        by (simp_all add: session_of_def)
      with Cons.IH [of s'] Return False show ?thesis by simp
    next
      case (Throw w code s')
      with c have s': "m_state s' \<noteq> OPEN"
        and ms: "messages_delivered (m_trace s') = messages_delivered (m_trace s)"
        by (simp_all add: session_of_def)
      obtain b s'' where ct: "catch_frame_exception ep w code s' = (b, s'')"
        by (cases "catch_frame_exception ep w code s'")
      from catch_not_open [OF s', of ep w code] catch_messages [of ep w code s'] ct
      have s'': "m_state s'' \<noteq> OPEN"
        "messages_delivered (m_trace s'') = messages_delivered (m_trace s')"
        by simp_all
      show ?thesis
      proof (cases b)
        case True
        with Cons.IH [OF s''(1)] s'' ms Throw ct False show ?thesis by simp
      next
        case stop: False
        with s'' ms Throw ct False show ?thesis by simp
      qed
    qed
  qed
qed

lemma handle_read_frame_fields:
  assumes "m_state s = OPEN \<or> m_state s = CLOSING"
  shows "m_state (handle_read_frame ep Success s) = m_state (read_loop ep (m_buf s) s)"
    and "messages_delivered (m_trace (handle_read_frame ep Success s))
           = messages_delivered (m_trace (read_loop ep (m_buf s) s))"
  using assms
  by (auto simp add: handle_read_frame_def Let_def log_def emit_def log_close_result_def
      messages_delivered_append)

lemma handle_read_frame_not_open:
  assumes "m_state s \<noteq> OPEN"
  shows "m_state (handle_read_frame ep Success s) \<noteq> OPEN
       \<and> messages_delivered (m_trace (handle_read_frame ep Success s))
           = messages_delivered (m_trace s)"
proof (cases "m_state s = CLOSING")
  case True
  with handle_read_frame_fields [of s ep] read_loop_not_open [OF assms, of ep "m_buf s"]
  show ?thesis by simp
next
  case False
  with assms show ?thesis
    by (simp add: handle_read_frame_def log_def emit_def messages_delivered_append)
qed

lemma reads_not_open:
  "m_state s \<noteq> OPEN \<Longrightarrow>
   m_state (reads ep cs s) \<noteq> OPEN
   \<and> messages_delivered (m_trace (reads ep cs s)) = messages_delivered (m_trace s)"
proof (induction cs arbitrary: s)
  case Nil
  then show ?case by (simp add: reads_def)
next
  case (Cons c cs)
  from Cons.prems have "m_state (s\<lparr>m_buf := m_buf s @ c\<rparr>) \<noteq> OPEN" by simp
  from handle_read_frame_not_open [OF this, of ep]
  have a: "m_state (frames_arrive ep c s) \<noteq> OPEN"
    and b: "messages_delivered (m_trace (frames_arrive ep c s)) = messages_delivered (m_trace s)"
    by (simp_all add: frames_arrive_def)
  from Cons.IH [OF a] b show ?case by (simp add: reads_def)
qed

lemma handle_read_frame_idle:
  "m_state t = OPEN \<Longrightarrow> \<not> ready (m_read_frame t) \<Longrightarrow> m_buf t = [] \<Longrightarrow>
   handle_read_frame ep Success t =
     emit Async_Read_Frame (log ''starting async read for '' LOG_DEBUG t)"
  by (simp add: handle_read_frame_def)

lemma handle_read_frame_return:
  assumes "m_state t = OPEN" and "\<not> ready (m_read_frame t)" and "m_buf t = x # c"
    and "consume_and_process ep x t = Return t1" and "m_state t1 = OPEN"
  shows "handle_read_frame ep Success t = handle_read_frame ep Success t1"
proof -
  from consume_buf [OF assms(2), of ep x] assms(3,4) have "m_buf t1 = c"
    by (simp add: session_of_def)
  with assms show ?thesis
    by (simp add: handle_read_frame_def)
qed

lemma handle_read_frame_stop:
  assumes "m_state t = OPEN" and "m_state (read_loop ep (m_buf t) t) \<noteq> OPEN"
  shows "m_state (handle_read_frame ep Success t) \<noteq> OPEN
       \<and> messages_delivered (m_trace (handle_read_frame ep Success t))
           = messages_delivered (m_trace (read_loop ep (m_buf t) t))"
  using handle_read_frame_fields [of t ep] assms by simp

lemma frames_of_not_empty: "frames_of m \<noteq> []"
  by (cases m) (simp add: message_frames_def)

lemma no_frames_left:
  "phase_frames ph @ concat (map frames_of ms) = [] \<Longrightarrow> ph = Between \<and> ms = []"
  by (cases ph; cases ms) (simp_all add: frames_of_not_empty)

lemma chunk_advance:
  assumes "m_state t = OPEN" and "\<not> ready (m_read_frame t)" and "m_buf t = x # c"
    and "consume_and_process ep x t = Return t1" and "m_state t1 = OPEN"
  shows "handle_read_frame ep Success t = handle_read_frame ep Success t1" and "m_buf t1 = c"
proof -
  from handle_read_frame_return [OF assms]
  show "handle_read_frame ep Success t = handle_read_frame ep Success t1" .
  from consume_buf [OF assms(2), of ep x] assms(3,4) show "m_buf t1 = c"
    by (simp add: session_of_def)
qed

lemma chunk_stopped:
  assumes "m_state t = OPEN" and "m_buf t = xs" and "m_state (read_loop ep xs t) \<noteq> OPEN"
    and "messages_delivered (m_trace (read_loop ep xs t)) = before"
  shows "reads_result False before (reads ep cs (handle_read_frame ep Success t))"
proof -
  from handle_read_frame_stop [OF assms(1), of ep] assms(2-4)
  have a: "m_state (handle_read_frame ep Success t) \<noteq> OPEN"
    and b: "messages_delivered (m_trace (handle_read_frame ep Success t)) = before"
    by simp_all
  from reads_not_open [OF a, of ep cs] b show ?thesis
    by (simp add: reads_result_def)
qed

lemma chunk_payload_violation:
  assumes "m_state t = OPEN" and "m_buf t = x # c"
    and "consume_and_process ep x t = Throw w PAYLOAD_VIOLATION t1" and "m_state t1 = OPEN"
    and "messages_delivered (m_trace t1) = messages_delivered (m_trace t)"
  shows "reads_result False (messages_delivered (m_trace t))
           (reads ep cs (handle_read_frame ep Success t))"
proof -
  from catch_payload_violation [OF assms(4)] obtain t2 where
    ct: "catch_frame_exception ep w PAYLOAD_VIOLATION t1 = (False, t2)"
    and cl: "closed_for_payload ep (messages_delivered (m_trace t1)) t2"
    by blast
  from read_loop_break [OF assms(1,3) ct] have rl: "read_loop ep (x # c) t = t2" .
  from cl have "m_state t2 \<noteq> OPEN"
    and "messages_delivered (m_trace t2) = messages_delivered (m_trace t)"
    using assms(5) by (simp_all add: closed_for_payload_def)
  with rl have "m_state (read_loop ep (x # c) t) \<noteq> OPEN"
    and "messages_delivered (m_trace (read_loop ep (x # c) t)) = messages_delivered (m_trace t)"
    by simp_all
  from chunk_stopped [OF assms(1,2) this] show ?thesis .
qed

lemma phase_open:
  "phase_holds ph t \<Longrightarrow> m_state t = OPEN \<and> \<not> ready (m_read_frame t) \<and> m_local_interface t"
  by (cases ph) (simp_all add: message_start_def assembling_def)

lemma phase_idle:
  assumes "phase_holds ph t" and "m_buf t = []"
  shows "phase_holds ph ((handle_read_frame ep Success t)\<lparr>m_buf := d\<rparr>)"
    and "messages_delivered (m_trace (handle_read_frame ep Success t))
           = messages_delivered (m_trace t)"
    and "m_buf (handle_read_frame ep Success t) = []"
    and "ph = Between \<Longrightarrow> between_messages (handle_read_frame ep Success t)"
proof -
  from phase_open [OF assms(1)] have "m_state t = OPEN" "\<not> ready (m_read_frame t)"
    by simp_all
  note h = handle_read_frame_idle [OF this assms(2), of ep]
  from assms(1) show "phase_holds ph ((handle_read_frame ep Success t)\<lparr>m_buf := d\<rparr>)"
    by (cases ph) (simp_all add: h message_start_def assembling_def log_def emit_def)
  show "messages_delivered (m_trace (handle_read_frame ep Success t))
      = messages_delivered (m_trace t)"
    by (simp add: h log_def emit_def messages_delivered_append)
  from assms(2) show "m_buf (handle_read_frame ep Success t) = []"
    by (simp add: h log_def emit_def)
  from assms show "between_messages (handle_read_frame ep Success t)" if "ph = Between"
    using that by (simp add: h between_messages_def message_start_def log_def emit_def)
qed

lemma chunks_general:
  "phase_holds ph t \<Longrightarrow> m_buf t = c \<Longrightarrow> \<forall>m \<in> set ms. data_message m \<Longrightarrow>
   c @ concat cs = phase_frames ph @ concat (map frames_of ms) \<Longrightarrow>
   reads_result (phase_completes ph \<and> list_all complete ms)
     (messages_delivered (m_trace t) @ phase_deliveries ph ms)
     (reads ep cs (handle_read_frame ep Success t))"
proof (induction "length c + length (concat cs) + length cs" arbitrary: c cs t ph ms
    rule: less_induct)
  case less
  note inv = less.prems(1) and data = less.prems(3)
  from phase_open [OF inv] have st: "m_state t = OPEN" and nr: "\<not> ready (m_read_frame t)"
    by simp_all
  show ?case
  proof (cases c)
    case Nil
    with less.prems(2) have buf: "m_buf t = []" by simp
    note idle = phase_idle [OF inv buf, where ep = ep]
    show ?thesis
    proof (cases cs)
      case empty: Nil
      with less.prems(4) Nil have "phase_frames ph @ concat (map frames_of ms) = []" by simp
      from no_frames_left [OF this] have ph: "ph = Between" and ms: "ms = []" by simp_all
      from idle(2) idle(4) [OF ph] empty ph ms show ?thesis
        by (simp add: reads_result_def reads_def)
    next
      case (Cons d ds)
      let ?t = "(handle_read_frame ep Success t)\<lparr>m_buf := d\<rparr>"
      have b': "m_buf ?t = d" by simp
      from less.prems(4) Nil Cons
      have eq: "d @ concat ds = phase_frames ph @ concat (map frames_of ms)" by simp
      have "length d + length (concat ds) + length ds
              < length c + length (concat cs) + length cs"
        using Nil Cons by simp
      from less.hyps [OF this idle(1) b' data eq] idle(2,3) Cons show ?thesis
        by (simp add: reads_def frames_arrive_def)
    qed
  next
    case (Cons x c')
    with less.prems(2) have buf: "m_buf t = x # c'" by simp
    have smaller: "length c' + length (concat cs) + length cs
                     < length c + length (concat cs) + length cs"
      using Cons by simp
    show ?thesis
    proof (cases ph)
      case Between
      with inv have start: "message_start t" by simp
      show ?thesis
      proof (cases ms)
        case Nil
        with less.prems(4) Cons Between show ?thesis by (auto split: if_splits)
      next
        case (Cons m ms')
        obtain opc p0 ps pn where m: "m = Fragmented opc p0 ps pn" by (cases m)
        let ?last = "Rx_Frame (data_frame CONTINUATION True pn)"
        let ?u = "(UTF8_ACCEPT, 0 :: nat)"
        from data Cons m have opc: "opc = TEXT \<or> opc = BINARY"
          and data': "\<forall>m \<in> set ms'. data_message m" by simp_all
        from less.prems(4) \<open>c = x # c'\<close> Between Cons m
        have x: "x = Rx_Frame (data_frame opc False p0)"
          and eq: "c' @ concat cs = (map piece_rx ps @ [?last]) @ concat (map frames_of ms')"
          by (simp_all add: message_frames_def)
        show ?thesis
        proof (cases "opc = BINARY")
          case True
          from first_frame_binary [OF start] x True obtain t1 where
            step: "consume_and_process ep x t = Return t1"
            and asm: "assembling BINARY p0 ?u t1"
            and mt: "messages_delivered (m_trace t1) = messages_delivered (m_trace t)"
            by blast
          from asm True have inv1: "phase_holds (Assembling opc p0 ?u ps pn) t1" by simp
          from asm have st1: "m_state t1 = OPEN" by (simp add: assembling_def)
          from chunk_advance [OF st nr buf step st1]
          have h: "handle_read_frame ep Success t = handle_read_frame ep Success t1"
            and buf1: "m_buf t1 = c'" by simp_all
          from eq have eq': "c' @ concat cs
              = phase_frames (Assembling opc p0 ?u ps pn) @ concat (map frames_of ms')"
            by simp
          from less.hyps [OF smaller inv1 buf1 data' eq'] h mt Between Cons m True
          show ?thesis by (auto split: if_splits)
        next
          case False
          with opc have istext: "opc = TEXT" by simp
          show ?thesis
          proof (cases "snd (validate_utf8 p0 ?u)")
            case True
            from first_frame_text [OF start True] x istext obtain t1 where
              step: "consume_and_process ep x t = Return t1"
              and asm: "assembling TEXT p0 (fst (validate_utf8 p0 ?u)) t1"
              and mt: "messages_delivered (m_trace t1) = messages_delivered (m_trace t)"
              by blast
            from asm istext
            have inv1: "phase_holds (Assembling opc p0 (fst (validate_utf8 p0 ?u)) ps pn) t1"
              by simp
            from asm have st1: "m_state t1 = OPEN" by (simp add: assembling_def)
            from chunk_advance [OF st nr buf step st1]
            have h: "handle_read_frame ep Success t = handle_read_frame ep Success t1"
              and buf1: "m_buf t1 = c'" by simp_all
            from eq have eq': "c' @ concat cs
                = phase_frames (Assembling opc p0 (fst (validate_utf8 p0 ?u)) ps pn)
                  @ concat (map frames_of ms')"
              by simp
            from less.hyps [OF smaller inv1 buf1 data' eq'] h mt Between Cons m istext
              utf8_passes_append [OF True, of "payloads ps @ pn"]
            show ?thesis by (auto split: if_splits)
          next
            case bad: False
            from first_frame_text_bad [OF start bad] x istext obtain w t1 where
              thr: "consume_and_process ep x t = Throw w PAYLOAD_VIOLATION t1"
              and st1: "m_state t1 = OPEN"
              and mt: "messages_delivered (m_trace t1) = messages_delivered (m_trace t)"
              by blast
            from chunk_payload_violation [OF st buf thr st1 mt, of cs] Between Cons m istext
              utf8_passes_append_bad [OF bad, of "payloads ps @ pn"]
            show ?thesis by (auto split: if_splits)
          qed
        qed
      qed
    next
      case (Assembling opc msg u ps pn)
      let ?last = "Rx_Frame (data_frame CONTINUATION True pn)"
      from inv Assembling have asm: "assembling opc msg u t"
        and opc: "opc = TEXT \<or> opc = BINARY" by simp_all
      show ?thesis
      proof (cases ps)
        case Nil
        with less.prems(4) \<open>c = x # c'\<close> Assembling
        have x: "x = ?last"
          and eq: "c' @ concat cs = phase_frames Between @ concat (map frames_of ms)"
          by simp_all
        have next_message:
          "reads_result (phase_completes ph \<and> list_all complete ms)
             (messages_delivered (m_trace t) @ phase_deliveries ph ms)
             (reads ep cs (handle_read_frame ep Success t))"
          if step: "consume_and_process ep x t = Return t1"
            and del: "delivered (messages_delivered (m_trace t)) (on_message opc (msg @ pn)) t1"
            and ok: "opc = BINARY \<or> utf8_passes u pn"
          for t1
        proof -
          from del have inv1: "phase_holds Between t1"
            and st1: "m_state t1 = OPEN"
            and mt: "messages_delivered (m_trace t1)
                       = messages_delivered (m_trace t) @ [on_message opc (msg @ pn)]"
            by (simp_all add: delivered_def message_start_def)
          from chunk_advance [OF st nr buf step st1]
          have h: "handle_read_frame ep Success t = handle_read_frame ep Success t1"
            and buf1: "m_buf t1 = c'" by simp_all
          from less.hyps [OF smaller inv1 buf1 data eq] h mt Assembling Nil ok
          show ?thesis by (auto split: if_splits)
        qed
        show ?thesis
        proof (cases "opc = BINARY")
          case True
          from asm True have "assembling BINARY msg u t" by simp
          from last_continuation_binary [OF this, of ep pn] x obtain t1 where
            step: "consume_and_process ep x t = Return t1"
            and del: "delivered (messages_delivered (m_trace t)) (On_Message_Binary (msg @ pn)) t1"
            by blast
          from del True
          have "delivered (messages_delivered (m_trace t)) (on_message opc (msg @ pn)) t1"
            by (simp add: on_message_def)
          from next_message [OF step this] True show ?thesis by (auto split: if_splits)
        next
          case False
          with opc have istext: "opc = TEXT" by simp
          from asm istext have asmT: "assembling TEXT msg u t" by simp
          show ?thesis
          proof (cases "utf8_passes u pn")
            case True
            from last_continuation_text [OF asmT True, of ep] x obtain t1 where
              step: "consume_and_process ep x t = Return t1"
              and del: "delivered (messages_delivered (m_trace t)) (On_Message_Text (msg @ pn)) t1"
              by blast
            from del istext
            have "delivered (messages_delivered (m_trace t)) (on_message opc (msg @ pn)) t1"
              by (simp add: on_message_def)
            from next_message [OF step this] True show ?thesis by (auto split: if_splits)
          next
            case bad: False
            have "\<exists>w t1. consume_and_process ep x t = Throw w PAYLOAD_VIOLATION t1
                    \<and> m_state t1 = OPEN
                    \<and> messages_delivered (m_trace t1) = messages_delivered (m_trace t)"
            proof (cases "snd (validate_utf8 pn u)")
              case True
              with bad have "fst (fst (validate_utf8 pn u)) \<noteq> UTF8_ACCEPT"
                by (simp add: utf8_passes_def)
              from last_continuation_text_incomplete [OF asmT True this, of ep] x
              show ?thesis by blast
            next
              case False
              from step_continuation_text_bad [OF asmT False, of ep True] x
              show ?thesis by blast
            qed
            then obtain w t1 where
              thr: "consume_and_process ep x t = Throw w PAYLOAD_VIOLATION t1"
              and st1: "m_state t1 = OPEN"
              and mt: "messages_delivered (m_trace t1) = messages_delivered (m_trace t)"
              by blast
            from chunk_payload_violation [OF st buf thr st1 mt, of cs] Assembling Nil bad istext
            show ?thesis by (auto split: if_splits)
          qed
        qed
      next
        case (Cons p ps')
        with less.prems(4) \<open>c = x # c'\<close> Assembling
        have x: "x = piece_rx p"
          and eq: "c' @ concat cs = (map piece_rx ps' @ [?last]) @ concat (map frames_of ms)"
          by simp_all
        have go_on:
          "reads_result (phase_completes (Assembling opc msg' u' ps' pn) \<and> list_all complete ms)
             (messages_delivered (m_trace t) @ phase_deliveries (Assembling opc msg' u' ps' pn) ms)
             (reads ep cs (handle_read_frame ep Success t))"
          if step: "consume_and_process ep x t = Return t1"
            and asm1: "assembling opc msg' u' t1"
            and mt: "messages_delivered (m_trace t1) = messages_delivered (m_trace t)"
          for t1 msg' u'
        proof -
          from asm1 opc have inv1: "phase_holds (Assembling opc msg' u' ps' pn) t1" by simp
          from asm1 have st1: "m_state t1 = OPEN" by (simp add: assembling_def)
          from chunk_advance [OF st nr buf step st1]
          have h: "handle_read_frame ep Success t = handle_read_frame ep Success t1"
            and buf1: "m_buf t1 = c'" by simp_all
          from eq have eq': "c' @ concat cs
              = phase_frames (Assembling opc msg' u' ps' pn) @ concat (map frames_of ms)"
            by simp
          from less.hyps [OF smaller inv1 buf1 data eq'] h mt show ?thesis by (auto split: if_splits)
        qed
        show ?thesis
        proof (cases p)
          case (Ping q)
          from step_ping [OF asm, of ep q] x Ping obtain t1 where
            "consume_and_process ep x t = Return t1" "assembling opc msg u t1"
            "messages_delivered (m_trace t1) = messages_delivered (m_trace t)"
            by blast
          from go_on [OF this] Assembling Cons Ping show ?thesis by (auto split: if_splits)
        next
          case (Pong q)
          from step_pong [OF asm, of ep q] x Pong obtain t1 where
            "consume_and_process ep x t = Return t1" "assembling opc msg u t1"
            "messages_delivered (m_trace t1) = messages_delivered (m_trace t)"
            by blast
          from go_on [OF this] Assembling Cons Pong show ?thesis by (auto split: if_splits)
        next
          case (Close code reason)
          from step_close [OF asm, of ep code reason] x Close obtain t1 where
            step: "consume_and_process ep x t = Return t1"
            and cl: "m_state t1 = CLOSED"
            and mt: "messages_delivered (m_trace t1) = messages_delivered (m_trace t)"
            by blast
          from read_loop_return [OF st step, of c'] read_loop_closed [OF cl, of ep c']
          have rl: "read_loop ep (x # c') t = t1" by simp
          with cl mt have "m_state (read_loop ep (x # c') t) \<noteq> OPEN"
            and "messages_delivered (m_trace (read_loop ep (x # c') t))
                   = messages_delivered (m_trace t)"
            by simp_all
          from chunk_stopped [OF st buf this, of cs] Assembling Cons Close show ?thesis by (auto split: if_splits)
        next
          case (Continuation q)
          show ?thesis
          proof (cases "opc = BINARY")
            case True
            from asm True have "assembling BINARY msg u t" by simp
            from step_continuation_binary [OF this, of ep q] x Continuation True obtain t1 where
              "consume_and_process ep x t = Return t1" "assembling opc (msg @ q) u t1"
              "messages_delivered (m_trace t1) = messages_delivered (m_trace t)"
              by auto
            from go_on [OF this] Assembling Cons Continuation True show ?thesis by (auto split: if_splits)
          next
            case False
            with opc have istext: "opc = TEXT" by simp
            from asm istext have asmT: "assembling TEXT msg u t" by simp
            show ?thesis
            proof (cases "snd (validate_utf8 q u)")
              case True
              from step_continuation_text [OF asmT True, of ep] x Continuation istext
              obtain t1 where
                "consume_and_process ep x t = Return t1"
                "assembling opc (msg @ q) (fst (validate_utf8 q u)) t1"
                "messages_delivered (m_trace t1) = messages_delivered (m_trace t)"
                by auto
              from go_on [OF this] Assembling Cons Continuation istext
                utf8_passes_append [OF True, of "payloads ps' @ pn"]
              show ?thesis by (auto split: if_splits)
            next
              case bad: False
              from step_continuation_text_bad [OF asmT bad, of ep False] x Continuation
              obtain w t1 where
                thr: "consume_and_process ep x t = Throw w PAYLOAD_VIOLATION t1"
                and st1: "m_state t1 = OPEN"
                and mt: "messages_delivered (m_trace t1) = messages_delivered (m_trace t)"
                by auto
              from chunk_payload_violation [OF st buf thr st1 mt, of cs] Assembling Cons
                Continuation istext utf8_passes_append_bad [OF bad, of "payloads ps' @ pn"]
              show ?thesis by (auto split: if_splits)
            qed
          qed
        qed
      qed
    qed
  qed
qed

lemma deliveries_append:
  "list_all complete ms \<Longrightarrow> deliveries (ms @ ns) = map delivery ms @ deliveries ns"
  by (induction ms) simp_all

lemma handshake_starts:
  assumes "m_server_http_code s0 = 101" and "m_local_interface s0" and "m_buf s0 = []"
    and "\<not> ready (m_read_frame s0)"
  shows "between_messages (handle_write_handshake ep False s0)"
  using assms
  by (simp add: handle_write_handshake_def read_frame_def handle_read_frame_def
      log_open_result_def reset_message_def between_messages_def
      log_def emit_def Let_def)

lemma reads_of_messages:
  assumes "between_messages s" and "\<forall>m \<in> set ms. data_message m"
    and "concat chunks = concat (map frames_of ms)"
  shows "reads_result (list_all complete ms) (messages_delivered (m_trace s) @ deliveries ms)
           (reads ep chunks s)"
proof (cases chunks)
  case Nil
  with assms(3) have "phase_frames Between @ concat (map frames_of ms) = []" by simp
  from no_frames_left [OF this] have "ms = []" by simp
  with Nil assms(1) show ?thesis by (simp add: reads_result_def reads_def)
next
  case (Cons c cs)
  let ?t = "s\<lparr>m_buf := c\<rparr>"
  from assms(1) have buf: "m_buf s = []" and inv: "phase_holds Between ?t"
    by (simp_all add: between_messages_def message_start_def)
  have bt: "m_buf ?t = c" by simp
  from assms(3) Cons have eq: "c @ concat cs = phase_frames Between @ concat (map frames_of ms)"
    by simp
  from chunks_general [OF inv bt assms(2) eq, of ep] buf Cons show ?thesis
    by (simp add: reads_def frames_arrive_def)
qed

lemmas sha1_eval =
  sha1_def sha1_pad_def be_bytes8_def zeros.simps sha1_blocks.simps
  sha1_block_def sha1_rounds.simps sha1_f_def sha1_k_def rotl_def m32_def

lemma sha1_abc: "sha1 ''abc'' = [0xA9993E36, 0x4706816A, 0xBA3E2571, 0x7850C26C, 0x9CD0D89D]"
  by (simp add: sha1_eval)

lemma canonical_digest:
  "sha1 ''dGhlIHNhbXBsZSBub25jZQ==258EAFA5-E914-47DA-95CA-C5AB0DC85B11''
     = [0xB37A4F2C, 0xC0624F16, 0x90F64606, 0xCF385945, 0xB2BEC4EA]"
  by (simp add: sha1_eval)

lemma canonical_base64:
  "base64_encode (network_bytes [0xB37A4F2C, 0xC0624F16, 0x90F64606, 0xCF385945, 0xB2BEC4EA])
     = ''s3pPLMBiTxaQ9kYGzzhZRbK+xOo=''"
  by (simp add: base64_chars_def)


lemma atoi_values:
  "atoi ''13'' = 13" "atoi '' 13abc'' = 13" "atoi ''4294967309'' = 13"
  "atoi ''18446744073709551629'' = - 1"
  "(word_of_int (atoi ''18446744073709551629'') :: 32 word) = 4294967295"
  by (simp_all add: atoi_def strtol_def isspace_def isdigit_def)



lemma map_of_map_assign: "map_of (map_assign k v l) = (map_of l)(k \<mapsto> v)"
  by (induction l) (auto simp: fun_upd_twist)

lemma get_header_map_assign:
  "get_header k (map_assign k' v l) = (if k = k' then v else get_header k l)"
  by (simp add: get_header_def map_of_map_assign)




lemmas handshake_defs =
  parse_handshake_def parse_token_def tokens_from.simps str_find_def substr_def CRLF_def
  get_client_header_def get_server_header_def get_header_def set_header_def
  handshake_checks_def check_request_line_def check_host_def check_upgrade_def
  check_connection_def check_key_def check_version_def handshake_error_def
  hs_then_def hs_passes_def hs_session_def record_origin_def local_validate_def
  handshake_try_def handshake_catch_def handle_read_handshake_def
  iequals_def ifind_first_def to_lower_def atoi_def strtol_def isspace_def isdigit_def
  read_handshake_def on_connect_def accepted_session_def




lemma length_sha1_rounds: "length (sha1_rounds t w a b c d e) = 5"
  by (induction t w a b c d e rule: sha1_rounds.induct) (simp add: sha1_rounds.simps)

lemma length_sha1_blocks: "length h = 5 \<Longrightarrow> length (sha1_blocks h ws) = 5"
  by (induction h ws rule: sha1_blocks.induct)
    (simp add: sha1_blocks.simps sha1_block_def length_sha1_rounds)

lemma length_sha1: "length (sha1 msg) = 5"
  by (simp add: sha1_def length_sha1_blocks)

lemma length_network_bytes: "length (network_bytes ws) = 4 * length ws"
  by (induction ws) simp_all

lemma c_str_no_nul: "CHR 0x00 \<notin> set s \<Longrightarrow> c_str s = s"
  by (auto simp: c_str_def takeWhile_eq_all_conv)

lemma sha1_a: "sha1 ''a'' = [0x86F7E437, 0xFAA5A7FC, 0xE15D1DDC, 0xB9EAEAEA, 0x377667B8]"
  by (simp add: sha1_eval)

lemma sha1_nul_key:
  "sha1 ([CHR ''a'', CHR 0x00, CHR ''b''] @ ''258EAFA5-E914-47DA-95CA-C5AB0DC85B11'')
     = [0xA8AC972B, 0xDE2952B9, 0x098F6F6A, 0xEB293D7B, 0xCD50E657]"
  by (simp add: sha1_eval)

lemma handshaken_canonical:
  "handle_read_handshake example_endpoint Hs_Return canonical_request accepted_session
     = write_handshake example_endpoint (handshaken canonical_request)"
  "m_server_http_code (handshaken canonical_request) = 101"
  "m_server_http_string (handshaken canonical_request) = ''Switching Protocols''"
  "m_server_headers (handshaken canonical_request) = []"
  "m_version (handshaken canonical_request) = 13"
  "get_client_header ''Sec-WebSocket-Key'' (handshaken canonical_request)
     = ''dGhlIHNhbXBsZSBub25jZQ==''"
  by (simp_all add: handshaken_def canonical_request_def handshake_defs run_checks.simps
      session_ctor_def zero_memory_def example_endpoint_def emit_def access_log_def Let_def)

lemma handshaken_nul_key:
  "handle_read_handshake example_endpoint Hs_Return nul_key_request accepted_session
     = write_handshake example_endpoint (handshaken nul_key_request)"
  "m_server_http_code (handshaken nul_key_request) = 101"
  "get_client_header ''Sec-WebSocket-Key'' (handshaken nul_key_request)
     = [CHR ''a'', CHR 0x00, CHR ''b'']"
  by (simp_all add: handshaken_def nul_key_request_def handshake_defs run_checks.simps
      session_ctor_def zero_memory_def example_endpoint_def emit_def access_log_def Let_def)

lemma write_handshake_101:
  assumes "m_server_http_code s = 101" and "m_server_http_string s = ''Switching Protocols''"
    and "m_server_headers s = []"
    and "sha1 (c_str (get_client_header ''Sec-WebSocket-Key'' s @ GUID)) = d"
  shows "m_raw_server_handshake (write_handshake ep s)
           = ''HTTP/1.1 101 Switching Protocols'' @ CRLF @ ''Connection: Upgrade'' @ CRLF @
             ''Sec-WebSocket-Accept: '' @ base64_encode (network_bytes d) @ CRLF @
             ''Server: WebSocket++/2011-09-25'' @ CRLF @ ''Upgrade: websocket'' @ CRLF @ CRLF"
    and "get_server_header ''Sec-WebSocket-Accept'' (write_handshake ep s)
           = base64_encode (network_bytes d)"
    and "m_server_http_code (write_handshake ep s) = 101"
    and "get_client_header k (write_handshake ep s) = get_client_header k s"
  using assms
  by (simp_all add: write_handshake_def sha1_result_def set_header_def get_server_header_def
      get_client_header_def get_header_def emit_def Let_def show_nat.simps CRLF_def)

lemma open_close_calls_append:
  "open_close_calls (xs @ ys) = open_close_calls xs @ open_close_calls ys"
  by (induction xs rule: open_close_calls.induct) simp_all

lemma close_times_out_calls:
  assumes "m_server_http_code s = 101" and "m_local_interface s" and "m_buf s = []"
    and "\<not> ready (m_read_frame s)"
  shows "m_state (handle_write_handshake ep False s) = OPEN"
    and "m_state (close_times_out ep s) = CLOSED"
    and "open_close_calls (m_trace (close_times_out ep s)) = open_close_calls (m_trace s) @ [On_Open]"
  using assms
  by (simp_all add: close_times_out_def handle_write_handshake_def log_open_result_def
      read_frame_def handle_read_frame_def reset_message_def close_def send_close_def
      write_frame_def set_status_def handle_write_frame_def handle_close_expired_def drop_tcp_def
      log_error_def log_def access_log_def emit_def Let_def open_close_calls_append)

lemma canonical_response_session:
  "m_local_interface (write_handshake example_endpoint (handshaken canonical_request))"
  "m_buf (write_handshake example_endpoint (handshaken canonical_request)) = []"
  "\<not> ready (m_read_frame (write_handshake example_endpoint (handshaken canonical_request)))"
  "open_close_calls (m_trace (write_handshake example_endpoint (handshaken canonical_request))) = []"
  by (simp_all add: write_handshake_def sha1_result_def set_header_def
      handshaken_def canonical_request_def handshake_defs run_checks.simps
      session_ctor_def zero_memory_def example_endpoint_def emit_def access_log_def Let_def
      frame_reset_def open_close_calls_append)



section \<open>Sends outside the OPEN state\<close>

text \<open>
  C9. A call of \<^verbatim>\<open>send\<close> (text or bytes), \<^verbatim>\<open>ping\<close> or \<^verbatim>\<open>pong\<close> on a session whose state
  is not OPEN leaves the session as it was but for one warning line at the end of the
  trace: no frame is written, and the state, the close record, the message in progress
  and the write frame are all the old ones. The result is a session, so nothing is thrown.
\<close>

theorem send_not_open_only_warns:
  assumes "m_state s \<noteq> OPEN"
  shows "send msg s =
           s\<lparr>m_trace := m_trace s @
              [Log ''Tried to send a message from a session that wasn't open'' LOG_WARN]\<rparr>
       \<and> send_bytes msg s =
           s\<lparr>m_trace := m_trace s @
              [Log ''Tried to send a message from a session that wasn't open'' LOG_WARN]\<rparr>
       \<and> ping msg s =
           s\<lparr>m_trace := m_trace s @
              [Log ''Tried to send a ping from a session that wasn't open'' LOG_WARN]\<rparr>
       \<and> pong msg s =
           s\<lparr>m_trace := m_trace s @
              [Log ''Tried to send a pong from a session that wasn't open'' LOG_WARN]\<rparr>"
  using assms by (simp add: send_def send_bytes_def ping_def pong_def log_def emit_def)

theorem send_not_open_only_warns_witness:
  "m_state closing_session \<noteq> OPEN
   \<and> send ''Hello'' closing_session =
       closing_session\<lparr>m_trace := m_trace closing_session @
          [Log ''Tried to send a message from a session that wasn't open'' LOG_WARN]\<rparr>
   \<and> m_state (ping ''x'' closing_session) = CLOSING
   \<and> m_trace (pong ''x'' closing_session) =
       [Log ''Tried to send a pong from a session that wasn't open'' LOG_WARN]"
proof -
  have st: "m_state closing_session \<noteq> OPEN"
    by (simp add: closing_session_def)
  have tr: "m_trace closing_session = []"
    by (simp add: closing_session_def open_session_def reset_message_def session_ctor_def)
  from send_not_open_only_warns [OF st, of "''Hello''"]
    send_not_open_only_warns [OF st, of "''x''"] st tr
  show ?thesis by (simp add: closing_session_def)
qed

section \<open>Frames received while CLOSING\<close>

text \<open>
  C10. In the CLOSING state \<^verbatim>\<open>process_frame\<close> ignores a decoded frame whose opcode is not
  CLOSE, whatever the opcode (TEXT, BINARY, CONTINUATION, PING, PONG or a reserved one):
  it returns normally, the session is the old one but for two debug lines and the read
  frame, which is reset for the next frame. So no message is delivered, no PONG is
  written, nothing is thrown, and the fragmented flag, the current opcode, the collected
  payload and the validator are untouched. A CLOSE frame is the only one processed: it is
  taken as the acknowledgement, and the session is CLOSED.
\<close>

theorem closing_ignores_other_frames:
  assumes "m_state s = CLOSING"
  shows "(get_opcode (m_read_frame s) \<noteq> CLOSE \<longrightarrow>
           process_frame ep s =
             Return (s\<lparr>m_read_frame := frame_reset,
                       m_trace := m_trace s @
                         [Log ''process_frame'' LOG_DEBUG, Log ''ignoring this frame'' LOG_DEBUG]\<rparr>))
       \<and> (get_opcode (m_read_frame s) = CLOSE \<longrightarrow>
           process_frame ep s =
             Return (s\<lparr>m_remote_close_code := get_close_status (m_read_frame s),
                       m_remote_close_msg := get_close_msg (m_read_frame s),
                       m_closed_by_me := True, m_was_clean := True, m_state := CLOSED,
                       m_read_frame := frame_reset,
                       m_trace := m_trace s @
                         [Log ''process_frame'' LOG_DEBUG, Log ''process_close got ack'' LOG_DEBUG]\<rparr>))"
  using assms
  by (simp add: process_frame_def process_close_def and_then_def log_def emit_def Let_def)

theorem closing_ignores_other_frames_witness:
  "m_state closing_session = CLOSING
   \<and> get_opcode (m_read_frame (closing_session\<lparr>m_read_frame := data_frame PING True ''x''\<rparr>)) \<noteq> CLOSE
   \<and> messages_delivered (m_trace (session_of (process_frame example_endpoint
         (closing_session\<lparr>m_read_frame := data_frame PING True ''x''\<rparr>)))) = []
   \<and> frames_written (m_trace (session_of (process_frame example_endpoint
         (closing_session\<lparr>m_read_frame := data_frame PING True ''x''\<rparr>)))) = []
   \<and> thrown (process_frame example_endpoint
         (closing_session\<lparr>m_read_frame := data_frame PING True ''x''\<rparr>)) = None"
proof -
  let ?s = "closing_session\<lparr>m_read_frame := data_frame PING True ''x''\<rparr>"
  have st: "m_state ?s = CLOSING"
    by (simp add: closing_session_def)
  have op: "get_opcode (m_read_frame ?s) \<noteq> CLOSE"
    by (simp add: data_frame_def frame_reset_def)
  have tr: "m_trace ?s = []"
    by (simp add: closing_session_def open_session_def reset_message_def session_ctor_def)
  from closing_ignores_other_frames [OF st, of example_endpoint] op st tr
  show ?thesis
    by (simp add: thrown_def session_of_def closing_session_def)
qed

section \<open>The CLOSE frame that is sent\<close>

text \<open>
  C3. \<^verbatim>\<open>send_close\<close> (and \<^verbatim>\<open>close\<close>, which only calls it) on an OPEN session with status
  \<open>S\<close> moves the session to CLOSING and hands one more frame to the socket, a final CLOSE
  frame. Its code and reason are: NORMAL and the empty reason when \<open>S\<close> is NO\_STATUS;
  POLICY\_VIOLATION and the caller's reason when \<open>S\<close> is ABNORMAL\_CLOSE; else
  PROTOCOL\_ERROR and ``Status code is invalid'' when \<open>S\<close> is invalid; else
  PROTOCOL\_ERROR and ``Status code is reserved'' when \<open>S\<close> is reserved; else \<open>S\<close> and the
  caller's reason. The cases are tried in this order, as the source does, for any
  predicates \<open>invalid\<close> and \<open>reserved\<close>.
\<close>

theorem send_close_wire_frame:
  assumes "m_state s = OPEN"
  shows "m_state (send_close ep S reason s) = CLOSING
       \<and> close ep S reason s = send_close ep S reason s
       \<and> map (\<lambda>f. (get_opcode f, get_fin f, get_close_status f, get_close_msg f))
           (frames_written (m_trace (send_close ep S reason s))) =
         map (\<lambda>f. (get_opcode f, get_fin f, get_close_status f, get_close_msg f))
           (frames_written (m_trace s)) @
         [(CLOSE, True,
           if S = NO_STATUS then (NORMAL, [])
           else if S = ABNORMAL_CLOSE then (POLICY_VIOLATION, reason)
           else if invalid ep S then (PROTOCOL_ERROR, ''Status code is invalid'')
           else if reserved ep S then (PROTOCOL_ERROR, ''Status code is reserved'')
           else (S, reason))]"
  using assms
  by (simp add: send_close_def close_def write_frame_def set_status_def log_def emit_def Let_def
      frames_written_append)

theorem send_close_wire_frame_witness:
  "m_state open_session = OPEN
   \<and> map (\<lambda>f. (get_opcode f, get_fin f, get_close_status f, get_close_msg f))
       (frames_written (m_trace (send_close example_endpoint NO_STATUS ''bye'' open_session)))
     = [(CLOSE, True, NORMAL, [])]
   \<and> map (\<lambda>f. (get_opcode f, get_fin f, get_close_status f, get_close_msg f))
       (frames_written (m_trace (send_close example_endpoint ABNORMAL_CLOSE ''bye'' open_session)))
     = [(CLOSE, True, POLICY_VIOLATION, ''bye'')]
   \<and> map (\<lambda>f. (get_opcode f, get_fin f, get_close_status f, get_close_msg f))
       (frames_written (m_trace (send_close example_endpoint 999 ''bye'' open_session)))
     = [(CLOSE, True, PROTOCOL_ERROR, ''Status code is invalid'')]
   \<and> map (\<lambda>f. (get_opcode f, get_fin f, get_close_status f, get_close_msg f))
       (frames_written (m_trace (send_close example_endpoint 1011 ''bye'' open_session)))
     = [(CLOSE, True, PROTOCOL_ERROR, ''Status code is reserved'')]
   \<and> map (\<lambda>f. (get_opcode f, get_fin f, get_close_status f, get_close_msg f))
       (frames_written (m_trace (send_close example_endpoint 4000 ''bye'' open_session)))
     = [(CLOSE, True, 4000, ''bye'')]"
proof -
  have st: "m_state open_session = OPEN"
    by (simp add: open_session_def reset_message_def)
  have tr: "m_trace open_session = []"
    by (simp add: open_session_def reset_message_def session_ctor_def)
  from send_close_wire_frame [OF st, of example_endpoint NO_STATUS "''bye''"]
    send_close_wire_frame [OF st, of example_endpoint ABNORMAL_CLOSE "''bye''"]
    send_close_wire_frame [OF st, of example_endpoint 999 "''bye''"]
    send_close_wire_frame [OF st, of example_endpoint 1011 "''bye''"]
    send_close_wire_frame [OF st, of example_endpoint 4000 "''bye''"]
    st tr
  show ?thesis
    by (simp add: example_endpoint_def close_status_defs)
qed

section \<open>Who closed first\<close>

text \<open>
  C7, for the local close. \<^verbatim>\<open>close\<close> does not assign \<open>m_closed_by_me\<close>: the member keeps
  its value through the call, and through the expiry of the close timer after it. On an
  OPEN session, where it is False, a local \<^verbatim>\<open>close\<close> moves the state to CLOSING with
  \<open>m_closed_by_me\<close> still False, and when the peer never answers the session ends
  CLOSED with \<open>m_closed_by_me\<close> False although this endpoint sent the first CLOSE frame.
\<close>

theorem close_never_records_closed_by_me:
  "m_closed_by_me (close ep S reason s) = m_closed_by_me s
   \<and> m_closed_by_me (handle_close_expired e (close ep S reason s)) = m_closed_by_me s
   \<and> m_state open_session = OPEN
   \<and> m_closed_by_me open_session = False
   \<and> m_state (close example_endpoint NORMAL ''bye'' open_session) = CLOSING
   \<and> m_closed_by_me (close example_endpoint NORMAL ''bye'' open_session) = False
   \<and> m_state (handle_close_expired Success
        (close example_endpoint NORMAL ''bye'' open_session)) = CLOSED
   \<and> m_closed_by_me (handle_close_expired Success
        (close example_endpoint NORMAL ''bye'' open_session)) = False"
  by (simp add: close_def send_close_def write_frame_def handle_close_expired_def drop_tcp_def
      log_def emit_def Let_def open_session_def reset_message_def session_ctor_def)

section \<open>Frames that break the order of fragments\<close>

text \<open>
  C6, as amended. In the OPEN state \<^verbatim>\<open>process_frame\<close> throws PROTOCOL\_VIOLATION for a
  BINARY frame that arrives while a message is fragmented, and for a CONTINUATION frame
  that arrives while none is. For a TEXT frame that arrives while a message is fragmented
  the payload is validated first, from the validator's current state: it throws
  PROTOCOL\_VIOLATION when the payload passes and PAYLOAD\_VIOLATION when it does not. In
  every one of these cases the trace gains the debug line of \<^verbatim>\<open>process_frame\<close> and
  nothing else, so no message is delivered.
\<close>

theorem fragment_violations:
  assumes "m_state s = OPEN"
  shows "(get_opcode (m_read_frame s) = BINARY \<and> m_fragmented s \<longrightarrow>
            thrown (process_frame ep s) = Some PROTOCOL_VIOLATION
          \<and> m_trace (session_of (process_frame ep s)) = m_trace s @ [Log ''process_frame'' LOG_DEBUG])
       \<and> (get_opcode (m_read_frame s) = TEXT \<and> m_fragmented s \<longrightarrow>
            thrown (process_frame ep s) =
              Some (if snd (validate_utf8 (get_payload (m_read_frame s))
                             (m_utf8_state s, m_utf8_codepoint s))
                    then PROTOCOL_VIOLATION else PAYLOAD_VIOLATION)
          \<and> m_trace (session_of (process_frame ep s)) = m_trace s @ [Log ''process_frame'' LOG_DEBUG])
       \<and> (get_opcode (m_read_frame s) = CONTINUATION \<and> \<not> m_fragmented s \<longrightarrow>
            thrown (process_frame ep s) = Some PROTOCOL_VIOLATION
          \<and> m_trace (session_of (process_frame ep s)) = m_trace s @ [Log ''process_frame'' LOG_DEBUG])"
  using assms
  by (simp add: process_frame_def process_text_def process_binary_def process_continuation_def
      session_validate_utf8_def and_then_def thrown_def session_of_def log_def emit_def Let_def)

theorem fragment_violations_witness:
  "m_state fragmented_session = OPEN \<and> m_fragmented fragmented_session
   \<and> thrown (process_frame example_endpoint
        (fragmented_session\<lparr>m_read_frame := data_frame BINARY True ''b''\<rparr>))
     = Some PROTOCOL_VIOLATION
   \<and> thrown (process_frame example_endpoint
        (fragmented_session\<lparr>m_read_frame := data_frame TEXT True ''b''\<rparr>))
     = Some PROTOCOL_VIOLATION
   \<and> m_state open_session = OPEN \<and> \<not> m_fragmented open_session
   \<and> thrown (process_frame example_endpoint
        (open_session\<lparr>m_read_frame := data_frame CONTINUATION True ''b''\<rparr>))
     = Some PROTOCOL_VIOLATION"
proof -
  let ?b = "fragmented_session\<lparr>m_read_frame := data_frame BINARY True ''b''\<rparr>"
  let ?t = "fragmented_session\<lparr>m_read_frame := data_frame TEXT True ''b''\<rparr>"
  let ?c = "open_session\<lparr>m_read_frame := data_frame CONTINUATION True ''b''\<rparr>"
  have sb: "m_state ?b = OPEN" and st: "m_state ?t = OPEN"
    by (simp_all add: fragmented_session_facts)
  have sc: "m_state ?c = OPEN"
    by (simp add: open_session_def reset_message_def)
  have v: "snd (validate_utf8 ''b'' (UTF8_ACCEPT, 0))"
    by (simp add: decode_def)
  from fragment_violations [OF sb, of example_endpoint]
    fragment_violations [OF st, of example_endpoint]
    fragment_violations [OF sc, of example_endpoint] v
  show ?thesis
    by (simp add: fragmented_session_facts data_frame_def frame_reset_def open_session_def
        reset_message_def)
qed

text \<open>
  C6 as stated fails: a TEXT frame with the single byte 0xFF, received in the OPEN state
  while a binary message is fragmented, makes \<^verbatim>\<open>process_frame\<close> throw PAYLOAD\_VIOLATION,
  and \<^verbatim>\<open>handle_read_frame\<close> closes with INVALID\_PAYLOAD, not with PROTOCOL\_ERROR.
\<close>

theorem text_while_fragmented_counterexample:
  "m_state fragmented_session = OPEN \<and> m_fragmented fragmented_session
   \<and> thrown (process_frame example_endpoint
        (fragmented_session\<lparr>m_read_frame := data_frame TEXT True [CHR 0xFF]\<rparr>))
     = Some PAYLOAD_VIOLATION
   \<and> m_local_close_code (handle_read_frame example_endpoint Success
        (open_session\<lparr>m_buf := [Rx_Frame (data_frame BINARY False ''a''),
                                 Rx_Frame (data_frame TEXT True [CHR 0xFF])]\<rparr>))
     = INVALID_PAYLOAD"
  by (simp add: fragmented_session_def run_defs example_defs)

section \<open>Fragmented messages\<close>

text \<open>
  C4, as amended. A session with a connection handler is between two messages: OPEN,
  nothing half assembled, the validator in ACCEPT, the parser idle, the buffer empty. It
  then receives fragmented messages one after the other: the messages \<open>earlier\<close>, each
  of them complete, and then the message in question, whose first frame (TEXT or BINARY,
  fin = 0) has the payload \<open>p0\<close>, followed in any order and number by CONTINUATION frames
  with fin = 0 and control frames, and then by the CONTINUATION frame with fin = 1 and
  payload \<open>pn\<close>. The frames arrive in any number of reads, cut at any frame boundaries,
  also inside a message and across two messages; \<^verbatim>\<open>handle_read_frame\<close> runs after each
  read.
  \<^item> The handler gets one \<^verbatim>\<open>on_message\<close> for each of the earlier messages, in order.
    When no CLOSE frame is among the frames of the message in question, and it is BINARY
    or its bytes pass the UTF-8 validator, the handler then gets exactly one more
    \<^verbatim>\<open>on_message\<close>, with the payloads of the first frame and of the CONTINUATION frames
    concatenated in wire order; PING and PONG frames in between change nothing of it. The
    session is then between two messages again.
  \<^item> Otherwise (a CLOSE frame came between the fragments, or the text is not valid UTF-8)
    the handler gets no \<^verbatim>\<open>on_message\<close> for the message, and the session is no longer
    OPEN.
  \<^item> \<^verbatim>\<open>handle_write_handshake\<close>, when the handshake was answered with 101, leaves a
    session with a handler, an empty buffer and an idle parser between two messages,
    whatever the memory held that the constructor does not initialise.
\<close>

theorem fragmented_message_delivery:
  assumes "between_messages s"
    and "\<forall>m \<in> set earlier. data_message m \<and> complete m"
    and "opc = TEXT \<or> opc = BINARY"
    and "concat chunks = concat (map frames_of earlier) @ message_frames opc p0 pieces pn"
  shows "messages_delivered (m_trace (reads ep chunks s)) =
           messages_delivered (m_trace s) @ map delivery earlier @
           (if \<not> has_close pieces
               \<and> (opc = BINARY \<or> utf8_passes (UTF8_ACCEPT, 0) (p0 @ payloads pieces @ pn))
            then [on_message opc (p0 @ payloads pieces @ pn)] else [])
       \<and> (\<not> has_close pieces
            \<and> (opc = BINARY \<or> utf8_passes (UTF8_ACCEPT, 0) (p0 @ payloads pieces @ pn)) \<longrightarrow>
          between_messages (reads ep chunks s))
       \<and> (has_close pieces
            \<or> (opc = TEXT \<and> \<not> utf8_passes (UTF8_ACCEPT, 0) (p0 @ payloads pieces @ pn)) \<longrightarrow>
          m_state (reads ep chunks s) \<noteq> OPEN)
       \<and> (\<forall>s0. m_server_http_code s0 = 101 \<and> m_local_interface s0 \<and> m_buf s0 = []
              \<and> \<not> ready (m_read_frame s0) \<longrightarrow>
            between_messages (handle_write_handshake ep False s0))"
proof -
  let ?m = "Fragmented opc p0 pieces pn"
  let ?ok = "\<not> has_close pieces
      \<and> (opc = BINARY \<or> utf8_passes (UTF8_ACCEPT, 0) (p0 @ payloads pieces @ pn))"
  let ?r = "reads ep chunks s"
  from assms(2) have all: "list_all complete earlier"
    by (simp add: list_all_iff)
  from assms(2,3) have data: "\<forall>m \<in> set (earlier @ [?m]). data_message m"
    by auto
  from assms(4) have eq: "concat chunks = concat (map frames_of (earlier @ [?m]))"
    by simp
  from reads_of_messages [OF assms(1) data eq, of ep] all
  have res: "reads_result ?ok
      (messages_delivered (m_trace s) @ map delivery earlier @
       (if ?ok then [on_message opc (p0 @ payloads pieces @ pn)] else [])) ?r"
    by (auto simp add: deliveries_append split: if_splits)
  have a: "messages_delivered (m_trace ?r) =
      messages_delivered (m_trace s) @ map delivery earlier @
      (if ?ok then [on_message opc (p0 @ payloads pieces @ pn)] else [])"
    using res by (simp add: reads_result_def)
  have b: "?ok \<longrightarrow> between_messages ?r"
    using res by (simp add: reads_result_def)
  have c: "has_close pieces
      \<or> (opc = TEXT \<and> \<not> utf8_passes (UTF8_ACCEPT, 0) (p0 @ payloads pieces @ pn)) \<longrightarrow>
      m_state ?r \<noteq> OPEN"
    using res by (auto simp add: reads_result_def)
  have d: "\<forall>s0. m_server_http_code s0 = 101 \<and> m_local_interface s0 \<and> m_buf s0 = []
      \<and> \<not> ready (m_read_frame s0) \<longrightarrow> between_messages (handle_write_handshake ep False s0)"
    by (simp add: handshake_starts)
  from a b c d show ?thesis by (intro conjI)
qed

text \<open>
  The scenario of the spec after the handshake: ``Hel'', ``lo, '', ``World'' as three text
  fragments in four reads, one of them empty, with a PING in between; and the same
  followed by a binary message with a PONG between its two fragments, whose first frame
  arrives in the read that ends the text. Both are delivered, in order.
\<close>

theorem fragmented_message_delivery_witness:
  "m_server_http_code constructed_session = 101 \<and> m_local_interface constructed_session
   \<and> m_buf constructed_session = [] \<and> \<not> ready (m_read_frame constructed_session)
   \<and> between_messages (handle_write_handshake example_endpoint False constructed_session)
   \<and> data_message (Fragmented TEXT ''Hel'' [Ping ''x'', Continuation ''lo, ''] ''World'')
   \<and> complete (Fragmented TEXT ''Hel'' [Ping ''x'', Continuation ''lo, ''] ''World'')
   \<and> concat hello_world_reads
       = message_frames TEXT ''Hel'' [Ping ''x'', Continuation ''lo, ''] ''World''
   \<and> concat two_message_reads
       = concat (map frames_of [Fragmented TEXT ''Hel'' [Ping ''x'', Continuation ''lo, ''] ''World''])
         @ message_frames BINARY ''Hel'' [Pong []] ''lo''
   \<and> messages_delivered (m_trace (reads example_endpoint hello_world_reads
        (handle_write_handshake example_endpoint False constructed_session)))
      = [On_Message_Text ''Hello, World'']
   \<and> messages_delivered (m_trace (reads example_endpoint two_message_reads
        (handle_write_handshake example_endpoint False constructed_session)))
      = [On_Message_Text ''Hello, World'', On_Message_Binary ''Hello'']
   \<and> between_messages (reads example_endpoint two_message_reads
        (handle_write_handshake example_endpoint False constructed_session))"
proof -
  let ?s = "handle_write_handshake example_endpoint False constructed_session"
  let ?m = "Fragmented TEXT ''Hel'' [Ping ''x'', Continuation ''lo, ''] ''World''"
  have o: "between_messages open_session"
    by (simp add: between_messages_def open_session_def reset_message_def
        session_ctor_def frame_reset_def)
  have c1: "concat hello_world_reads
      = message_frames TEXT ''Hel'' [Ping ''x'', Continuation ''lo, ''] ''World''"
    by (simp add: hello_world_reads_def message_frames_def)
  have c1': "concat hello_world_reads
      = concat (map frames_of []) @
        message_frames TEXT ''Hel'' [Ping ''x'', Continuation ''lo, ''] ''World''"
    using c1 by simp
  have c2: "concat two_message_reads
      = concat (map frames_of [?m]) @ message_frames BINARY ''Hel'' [Pong []] ''lo''"
    by (simp add: two_message_reads_def message_frames_def)
  have s0: "m_server_http_code constructed_session = 101" "m_local_interface constructed_session"
    "m_buf constructed_session = []" "\<not> ready (m_read_frame constructed_session)"
    by (simp_all add: constructed_session_def session_ctor_def frame_reset_def)
  have v: "utf8_passes (UTF8_ACCEPT, 0) ''Hello, World''"
    by (simp add: utf8_passes_def decode_def)
  then have e1: "data_message ?m" and e2: "complete ?m"
    by simp_all
  then have e: "\<forall>m \<in> set [?m]. data_message m \<and> complete m"
    by simp
  have none: "\<forall>m \<in> set []. data_message m \<and> complete m"
    by simp
  have tr: "messages_delivered (m_trace ?s) = []"
    by (simp add: handle_write_handshake_def read_frame_def handle_read_frame_def
        log_open_result_def reset_message_def constructed_session_def session_ctor_def
        frame_reset_def log_def emit_def Let_def)
  note t0 = fragmented_message_delivery [OF o none _ c1', of example_endpoint]
  have start: "between_messages ?s"
    using t0 s0 by simp
  note t1 = fragmented_message_delivery [OF start none _ c1', of example_endpoint]
  have m1: "messages_delivered (m_trace (reads example_endpoint hello_world_reads ?s))
      = [On_Message_Text ''Hello, World'']"
    using t1 v tr by (simp add: on_message_def)
  note t2 = fragmented_message_delivery [OF start e _ c2, of example_endpoint]
  have m2: "messages_delivered (m_trace (reads example_endpoint two_message_reads ?s))
      = [On_Message_Text ''Hello, World'', On_Message_Binary ''Hello'']"
    using t2 tr by (simp add: on_message_def)
  have b2: "between_messages (reads example_endpoint two_message_reads ?s)"
    using t2 by simp
  show ?thesis
    by (intro conjI s0 start e1 e2 c1 c2 m1 m2 b2)
qed

text \<open>
  C4 as stated fails. A CLOSE frame is a control frame; when it arrives between the two
  fragments of a binary message the session acknowledges it and is CLOSED, the loop of
  \<^verbatim>\<open>handle_read_frame\<close> stops, and the last fragment is never processed: no
  \<^verbatim>\<open>on_message\<close> at all. The same holds of a fragmented text message whose last
  fragment ends in the middle of a code point.
\<close>

theorem close_between_fragments_counterexample:
  "messages_delivered (m_trace (read_loop example_endpoint
      [Rx_Frame (data_frame BINARY False ''a''),
       Rx_Frame ((data_frame CLOSE True [])\<lparr>get_close_status := NORMAL, get_close_msg := []\<rparr>),
       Rx_Frame (data_frame CONTINUATION True ''b'')] open_session)) = []
   \<and> messages_delivered (m_trace (read_loop example_endpoint
      [Rx_Frame (data_frame TEXT False ''a''),
       Rx_Frame (data_frame CONTINUATION True [CHR 0xC3])] open_session)) = []"
  by (simp add: run_defs example_defs close_status_defs)

section \<open>The validator over a text message\<close>

text \<open>
  C5, the failing input. A single TEXT frame with fin = 1 whose payload is the byte C3, the
  first byte of a two-byte character: the validator takes the byte and is left in the
  middle of a code point.
  \<^item> A session with a connection handler does what C5 says: \<^verbatim>\<open>deliver_message\<close> finds
    the validator outside ACCEPT and throws PAYLOAD\_VIOLATION; the session is CLOSING
    with the local close code INVALID\_PAYLOAD.
  \<^item> A session without a connection handler does not: \<^verbatim>\<open>deliver_message\<close> returns at
    its first test (lines 1002--1004), before the check of the validator (line 1021) that
    its comment (lines 1017--1020) calls needed. Nothing is thrown, no CLOSE frame is
    written, the session stays OPEN with the close code it had. The same holds when the
    byte comes in a TEXT frame with fin = 0 that an empty CONTINUATION frame with fin = 1
    completes.
  \<^item> The streaming check of \<^verbatim>\<open>process_text\<close> does not depend on the handler: the byte
    FF is rejected with PAYLOAD\_VIOLATION without one.
\<close>

theorem text_without_handler_skips_check:
  "utf8_passes (UTF8_ACCEPT, 0) [CHR 0xC3] = False
   \<and> thrown (consume_and_process example_endpoint (Rx_Frame (data_frame TEXT True [CHR 0xC3]))
        open_session) = Some PAYLOAD_VIOLATION
   \<and> m_state (read_loop example_endpoint [Rx_Frame (data_frame TEXT True [CHR 0xC3])]
        open_session) = CLOSING
   \<and> m_local_close_code (read_loop example_endpoint [Rx_Frame (data_frame TEXT True [CHR 0xC3])]
        open_session) = INVALID_PAYLOAD
   \<and> thrown (consume_and_process example_endpoint (Rx_Frame (data_frame TEXT True [CHR 0xC3]))
        (open_session\<lparr>m_local_interface := False\<rparr>)) = None
   \<and> m_state (read_loop example_endpoint [Rx_Frame (data_frame TEXT True [CHR 0xC3])]
        (open_session\<lparr>m_local_interface := False\<rparr>)) = OPEN
   \<and> m_local_close_code (read_loop example_endpoint [Rx_Frame (data_frame TEXT True [CHR 0xC3])]
        (open_session\<lparr>m_local_interface := False\<rparr>)) = NO_STATUS
   \<and> frames_written (m_trace (read_loop example_endpoint
        [Rx_Frame (data_frame TEXT True [CHR 0xC3])]
        (open_session\<lparr>m_local_interface := False\<rparr>))) = []
   \<and> thrown (consume_and_process example_endpoint (Rx_Frame (data_frame CONTINUATION True []))
        (session_of (consume_and_process example_endpoint
           (Rx_Frame (data_frame TEXT False [CHR 0xC3]))
           (open_session\<lparr>m_local_interface := False\<rparr>)))) = None
   \<and> thrown (consume_and_process example_endpoint (Rx_Frame (data_frame TEXT True [CHR 0xFF]))
        (open_session\<lparr>m_local_interface := False\<rparr>)) = Some PAYLOAD_VIOLATION"
  by (simp add: utf8_passes_def run_defs example_defs close_status_defs)

section \<open>The order of the handshake checks\<close>




section \<open>The accept key\<close>

text \<open>
  What \<^verbatim>\<open>write_handshake\<close> computes for a client key without a NUL byte, on the success
  path (\<open>m_server_http_code\<close> is 101): the header Sec-WebSocket-Accept is the base64
  encoding of the SHA-1 digest of the key followed by the GUID, the digest being the
  twenty bytes of its five words in network byte order; the status stays 101. For the key
  \<^verbatim>\<open>dGhlIHNhbXBsZSBub25jZQ==\<close> the value is \<^verbatim>\<open>s3pPLMBiTxaQ9kYGzzhZRbK+xOo=\<close>.
  SHA-1 and base64 are not among the sources: they are the functions of FIPS 180 and
  RFC 4648, as the spec names them.
\<close>

theorem accept_key_of_handshake:
  assumes "m_server_http_code s = 101"
    and "CHR 0x00 \<notin> set (get_client_header ''Sec-WebSocket-Key'' s)"
  shows "get_server_header ''Sec-WebSocket-Accept'' (write_handshake ep s)
           = base64_encode (network_bytes (sha1 (get_client_header ''Sec-WebSocket-Key'' s @ GUID)))
       \<and> length (network_bytes (sha1 (get_client_header ''Sec-WebSocket-Key'' s @ GUID))) = 20
       \<and> m_server_http_code (write_handshake ep s) = 101
       \<and> base64_encode (network_bytes (sha1 (''dGhlIHNhbXBsZSBub25jZQ=='' @ GUID)))
           = ''s3pPLMBiTxaQ9kYGzzhZRbK+xOo=''"
proof -
  have "CHR 0x00 \<notin> set GUID"
    by (simp add: GUID_def)
  with assms(2) have cs: "c_str (get_client_header ''Sec-WebSocket-Key'' s @ GUID)
      = get_client_header ''Sec-WebSocket-Key'' s @ GUID"
    by (simp add: c_str_no_nul)
  have hdr: "get_server_header ''Sec-WebSocket-Accept'' (write_handshake ep s)
      = base64_encode (network_bytes (sha1 (get_client_header ''Sec-WebSocket-Key'' s @ GUID)))"
    using assms(1)
    by (simp add: write_handshake_def sha1_result_def cs [unfolded get_client_header_def]
        set_header_def get_server_header_def get_client_header_def get_header_map_assign
        emit_def Let_def)
  have len: "length (network_bytes (sha1 (get_client_header ''Sec-WebSocket-Key'' s @ GUID))) = 20"
    by (simp add: length_network_bytes length_sha1)
  have code: "m_server_http_code (write_handshake ep s) = 101"
    using assms(1)
    by (simp add: write_handshake_def sha1_result_def set_header_def emit_def Let_def)
  have canon: "base64_encode (network_bytes (sha1 (''dGhlIHNhbXBsZSBub25jZQ=='' @ GUID)))
      = ''s3pPLMBiTxaQ9kYGzzhZRbK+xOo=''"
    by (simp add: GUID_def canonical_digest base64_chars_def)
  from hdr len code canon show ?thesis by (intro conjI)
qed

text \<open>
  The canonical handshake, from the bytes of the request to the bytes of the response.
\<close>

theorem accept_key_of_handshake_witness:
  "m_server_http_code (handshaken canonical_request) = 101
   \<and> CHR 0x00 \<notin> set (get_client_header ''Sec-WebSocket-Key'' (handshaken canonical_request))
   \<and> m_version (handshaken canonical_request) = 13
   \<and> get_server_header ''Sec-WebSocket-Accept''
        (handle_read_handshake example_endpoint Hs_Return canonical_request accepted_session)
       = ''s3pPLMBiTxaQ9kYGzzhZRbK+xOo=''
   \<and> m_server_http_code
        (handle_read_handshake example_endpoint Hs_Return canonical_request accepted_session) = 101
   \<and> m_raw_server_handshake
        (handle_read_handshake example_endpoint Hs_Return canonical_request accepted_session)
       = ''HTTP/1.1 101 Switching Protocols'' @ CRLF @ ''Connection: Upgrade'' @ CRLF @
         ''Sec-WebSocket-Accept: s3pPLMBiTxaQ9kYGzzhZRbK+xOo='' @ CRLF @
         ''Server: WebSocket++/2011-09-25'' @ CRLF @ ''Upgrade: websocket'' @ CRLF @ CRLF"
proof -
  let ?s = "handshaken canonical_request"
  note h = handshaken_canonical
  have nonul: "CHR 0x00 \<notin> set (get_client_header ''Sec-WebSocket-Key'' ?s)"
    by (simp add: h(6))
  note t = accept_key_of_handshake [OF h(2) nonul, of example_endpoint]
  have a: "get_server_header ''Sec-WebSocket-Accept'' (write_handshake example_endpoint ?s)
      = base64_encode (network_bytes (sha1 (get_client_header ''Sec-WebSocket-Key'' ?s @ GUID)))"
    by (insert t, elim conjE, assumption)
  have b: "base64_encode (network_bytes (sha1 (''dGhlIHNhbXBsZSBub25jZQ=='' @ GUID)))
      = ''s3pPLMBiTxaQ9kYGzzhZRbK+xOo=''"
    by (insert t, elim conjE, assumption)
  have c: "m_server_http_code (write_handshake example_endpoint ?s) = 101"
    by (insert t, elim conjE, assumption)
  have acc: "get_server_header ''Sec-WebSocket-Accept'' (write_handshake example_endpoint ?s)
      = ''s3pPLMBiTxaQ9kYGzzhZRbK+xOo=''"
    using a b by (simp only: h(6))
  have d: "sha1 (c_str (get_client_header ''Sec-WebSocket-Key'' ?s @ GUID))
      = [0xB37A4F2C, 0xC0624F16, 0x90F64606, 0xCF385945, 0xB2BEC4EA]"
    by (simp add: h(6) c_str_def GUID_def canonical_digest)
  have raw: "m_raw_server_handshake (write_handshake example_endpoint ?s)
      = ''HTTP/1.1 101 Switching Protocols'' @ CRLF @ ''Connection: Upgrade'' @ CRLF @
        ''Sec-WebSocket-Accept: s3pPLMBiTxaQ9kYGzzhZRbK+xOo='' @ CRLF @
        ''Server: WebSocket++/2011-09-25'' @ CRLF @ ''Upgrade: websocket'' @ CRLF @ CRLF"
    by (simp add: write_handshake_101(1) [OF h(2) h(3) h(4) d] base64_chars_def)
  show ?thesis
    unfolding h(1) by (intro conjI h(2) nonul h(5) acc c raw)
qed

text \<open>
  C2, the failing input. The request is the canonical one but for its key, which is the
  three bytes \<^verbatim>\<open>a\<close>, NUL, \<^verbatim>\<open>b\<close>. \<^verbatim>\<open>write_handshake\<close> appends the GUID to the key
  in a \<^verbatim>\<open>std::string\<close> and hands the result to \<^verbatim>\<open>SHA1\<close> as
  \<^verbatim>\<open>server_key.c_str()\<close>, a C string, which ends at the first NUL. The handshake
  succeeds with 101, the key is recorded with its three bytes, and the accept value that
  is sent is the digest of ``a'' alone: neither the rest of the key nor the GUID went into
  it. The value C2 gives, for the key followed by the GUID, is another one.
\<close>

theorem nul_in_key_accept_value:
  "m_server_http_code
     (handle_read_handshake example_endpoint Hs_Return nul_key_request accepted_session) = 101
   \<and> get_client_header ''Sec-WebSocket-Key''
       (handle_read_handshake example_endpoint Hs_Return nul_key_request accepted_session)
     = [CHR ''a'', CHR 0x00, CHR ''b'']
   \<and> get_server_header ''Sec-WebSocket-Accept''
       (handle_read_handshake example_endpoint Hs_Return nul_key_request accepted_session)
     = ''hvfkN/qlp/zhXR3cuerq6jd2Z7g=''
   \<and> base64_encode (network_bytes (sha1 ([CHR ''a'', CHR 0x00, CHR ''b''] @ GUID)))
     = ''qKyXK94pUrkJj29q6yk9e81Q5lc=''"
proof -
  let ?s = "handshaken nul_key_request"
  note h = handshaken_nul_key
  have d: "sha1 (c_str (get_client_header ''Sec-WebSocket-Key'' ?s @ GUID))
      = [0x86F7E437, 0xFAA5A7FC, 0xE15D1DDC, 0xB9EAEAEA, 0x377667B8]"
    by (simp add: h(3) c_str_def sha1_a)
  have hs: "m_server_http_string ?s = ''Switching Protocols''" "m_server_headers ?s = []"
    by (simp_all add: handshaken_def nul_key_request_def handshake_defs run_checks.simps
      session_ctor_def zero_memory_def example_endpoint_def emit_def access_log_def Let_def)
  note w = write_handshake_101 [OF h(2) hs d, where ep = example_endpoint]
  have a: "get_server_header ''Sec-WebSocket-Accept'' (write_handshake example_endpoint ?s)
      = ''hvfkN/qlp/zhXR3cuerq6jd2Z7g=''"
    by (simp add: w(2) base64_chars_def)
  have k: "get_client_header ''Sec-WebSocket-Key'' (write_handshake example_endpoint ?s)
      = [CHR ''a'', CHR 0x00, CHR ''b'']"
    using w(4) [of "''Sec-WebSocket-Key''"] by (simp only: h(3))
  have f: "base64_encode (network_bytes (sha1 ([CHR ''a'', CHR 0x00, CHR ''b''] @ GUID)))
      = ''qKyXK94pUrkJj29q6yk9e81Q5lc=''"
    by (simp add: GUID_def sha1_nul_key [simplified] base64_chars_def)
  show ?thesis
    unfolding h(1) by (intro conjI w(3) k a f)
qed

section \<open>The close notification\<close>

text \<open>
  C8, the failing path. The canonical handshake succeeds and \<^verbatim>\<open>on_open\<close> is called; the
  application calls \<^verbatim>\<open>close\<close>; the peer never answers, the close timer expires and
  \<^verbatim>\<open>handle_close_expired\<close> drops the connection, which makes the state CLOSED; the read
  that was pending completes as aborted, and \<^verbatim>\<open>handle_read_frame\<close> returns at its first
  test because the state is neither OPEN nor CLOSING. The session is CLOSED,
  \<^verbatim>\<open>on_open\<close> was called once and \<^verbatim>\<open>on_close\<close> never.
\<close>

theorem close_timeout_without_on_close:
  "m_state (handle_write_handshake example_endpoint False
      (handle_read_handshake example_endpoint Hs_Return canonical_request accepted_session)) = OPEN
   \<and> m_state (close_times_out example_endpoint
      (handle_read_handshake example_endpoint Hs_Return canonical_request accepted_session)) = CLOSED
   \<and> open_close_calls (m_trace (close_times_out example_endpoint
      (handle_read_handshake example_endpoint Hs_Return canonical_request accepted_session)))
     = [On_Open]"
proof -
  let ?s = "write_handshake example_endpoint (handshaken canonical_request)"
  have code: "m_server_http_code ?s = 101"
    using write_handshake_101(3) [OF handshaken_canonical(2-4) refl] .
  note c = close_times_out_calls [OF code canonical_response_session(1-3),
      where ep = example_endpoint]
  show ?thesis
    unfolding handshaken_canonical(1)
    using c by (simp add: canonical_response_session(4))
qed

end
